theory Spec2Isabelle
  imports Complex_Main "HOL-Library.AList" "HOL-Library.Multiset"
begin

section \<open>Portal Text Adventure: the room store and the play loop\<close>

text \<open>
  A shallow embedding of \<^verbatim>\<open>game.py\<close>, of its history snapshot
  \<^verbatim>\<open>.history/game_20251109041041.py\<close> (the version with links, the world editor
  and the design workflow) and of the text side of \<^verbatim>\<open>ai_adapter.py\<close>.

  Python dictionaries with a fixed set of keys are records; the world's \<open>rooms\<close>
  dictionary is an association list in insertion order, read with \<open>map_of\<close> and
  written with \<open>AList.update\<close> (an existing key keeps its place, a new key goes to
  the end, as in a Python dict). Every key of \<open>rooms\<close> is written by the program as
  \<open>str(room_id)\<close> and read back with \<open>int(k)\<close>; the model keys the list by the
  integer itself. Exceptions are values of \<open>py_error\<close> on the left of a sum. Random
  draws, prompt answers and the answers of the network are arguments.

  No function of the program catches an exception of the text generation, of a prompt
  that is not a number or of a missing key, so a function that raises returns the
  exception alone: the process ends there and what it held in memory is gone. Rooms are
  mutable dictionaries shared between \<open>data\<close> and local variables; a function that
  changes a room holds it in a local variable and stores it back under its key, and no
  two rooms share an exit list, so passing the world along explicitly gives the same
  result. Texts are printed through the rich library, which reads square-bracket tags
  in them and raises \<^verbatim>\<open>MarkupError\<close> on a closing tag that matches no open one. A
  text fixed in the source, or made of a fixed text and numbers, is well-formed and
  prints; a text with a typed, generated or stored part (a title, a description, a label,
  a role, a path, the message of an exception) is handed to the \<open>console\<close> of the
  call, which tells whether rich renders it. Writing the file is taken to succeed.
\<close>

subsection \<open>Data model\<close>

datatype py_error =
    RuntimeError
  | NotImplementedError
  | RequestException
  | HTTPError
  | JSONDecodeError
  | AttributeError
  | IndexError
  | KeyError
  | ValueError
  | MarkupError
  | OSError
  | OtherException

record exit_rec =
  role :: string
  label :: string
  target :: "int option"

record room =
  room_id :: int
  title :: string
  description :: string
  room_image :: string
  coins :: int
  exits :: "exit_rec list"

record world =
  next_id :: int
  total_generated :: "int option"
  start_room :: int
  rooms :: "(int \<times> room) list"

text \<open>
  The process state the room functions work on: \<open>data\<close> is the dictionary held in
  memory, \<open>rooms_json\<close> the content of the file \<^verbatim>\<open>rooms.json\<close> (\<open>None\<close> while the
  file does not exist).
\<close>

record state =
  data :: world
  rooms_json :: "world option"

text \<open>
  The rich console, as far as the program depends on it: \<open>console x text\<close> holds when
  rich renders \<open>text\<close>; when it does not, printing \<open>text\<close> raises \<^verbatim>\<open>MarkupError\<close>.
  It is part of what a call is handed from outside.
\<close>

record outside =
  console :: "string \<Rightarrow> bool"

subsection \<open>Strings\<close>

text \<open>\<^verbatim>\<open>str(n)\<close> for an integer: decimal digits, a minus sign for a negative number.\<close>

definition digit_char :: "nat \<Rightarrow> char" where
  "digit_char d = ''0123456789'' ! (d mod 10)"

function str_nat :: "nat \<Rightarrow> string" where
  "str_nat n = (if n < 10 then [digit_char n] else str_nat (n div 10) @ [digit_char (n mod 10)])"
  by pat_completeness auto
termination
  by (relation "measure (\<lambda>n. n)") auto

declare str_nat.simps [simp del]

definition str :: "int \<Rightarrow> string" where
  "str i = (if i < 0 then CHR ''-'' # str_nat (nat (- i)) else str_nat (nat i))"

text \<open>\<^verbatim>\<open>s.lower()\<close> and \<^verbatim>\<open>s.strip()\<close> on ASCII text, \<^verbatim>\<open>s.startswith(p)\<close>.\<close>

definition lower_char :: "char \<Rightarrow> char" where
  "lower_char c =
     (case map_of (zip ''ABCDEFGHIJKLMNOPQRSTUVWXYZ'' ''abcdefghijklmnopqrstuvwxyz'') c of
        None \<Rightarrow> c
      | Some l \<Rightarrow> l)"

definition lower :: "string \<Rightarrow> string" where
  "lower s = map lower_char s"

definition is_space :: "char \<Rightarrow> bool" where
  "is_space c = ((of_char c :: nat) \<in> {9, 10, 11, 12, 13, 28, 29, 30, 31, 32})"

definition strip :: "string \<Rightarrow> string" where
  "strip s = rev (dropWhile is_space (rev (dropWhile is_space s)))"

definition startswith :: "string \<Rightarrow> string \<Rightarrow> bool" where
  "startswith s p = (take (length p) s = p)"

text \<open>\<^verbatim>\<open>sep.join(xs)\<close>, and \<^verbatim>\<open>ex.get('target')\<close> inside an f-string.\<close>

fun join :: "string \<Rightarrow> string list \<Rightarrow> string" where
  "join sep [] = []"
| "join sep [x] = x"
| "join sep (x # y # ys) = x @ sep @ join sep (y # ys)"

definition target_text :: "int option \<Rightarrow> string" where
  "target_text t = (case t of None \<Rightarrow> ''None'' | Some i \<Rightarrow> str i)"

subsection \<open>ai\_adapter.py: text generation\<close>

text \<open>
  The dictionary a provider's text is parsed into. A key may be missing; a present key
  holds a value of the expected shape (a string, or a dictionary of labels).
\<close>

record room_json =
  j_title :: "string option"
  j_description :: "string option"
  j_image_prompt :: "string option"
  j_exit_labels :: "(string \<times> string) list option"

text \<open>
  What \<^verbatim>\<open>json.loads\<close> returns: a JSON object, read as a \<open>room_json\<close>, or
  any other JSON value (a number, a string, a list, null), which has no \<^verbatim>\<open>.get\<close>.
\<close>

datatype parsed = Obj room_json | NonObj

text \<open>The outcome of \<^verbatim>\<open>requests.post\<close>, \<^verbatim>\<open>raise_for_status\<close> and \<^verbatim>\<open>resp.json()\<close>.\<close>

datatype 'a http = Unreachable | BadStatus | BodyNotJson | Body 'a

text \<open>
  The shapes of a Hugging Face answer that \<^verbatim>\<open>hf_generate_text\<close> tells apart:
  a non-empty list whose first element is an object with \<^verbatim>\<open>generated_text\<close>; an object
  with \<^verbatim>\<open>generated_text\<close>; an object with \<^verbatim>\<open>error\<close>; anything else, which is dumped
  to text and parsed back, giving the value itself.
\<close>

datatype hf_body = HfList string | HfDict string | HfError | HfOther parsed

datatype gemini_body = GemCandidates string | GemOutput string | GemOther parsed

text \<open>
  The environment of one call of the adapter: the environment variables it reads, the
  answers of the network, \<^verbatim>\<open>json.loads\<close> on a provider's text (\<open>None\<close> when it
  raises) and the draw of \<^verbatim>\<open>random.randint(1000,9999)\<close>.
\<close>

record adapter_env =
  PROVIDER_TEXT :: "string option"
  HF_TOKEN :: "string option"
  GEMINI_API_KEY :: "string option"
  hf_post :: "hf_body http"
  gemini_post :: "gemini_body http"
  openai_installed :: bool
  openai_chat :: "string option"
  json_loads :: "string \<Rightarrow> parsed option"
  randint_draw :: nat

definition truthy :: "string option \<Rightarrow> bool" where
  "truthy v = (case v of None \<Rightarrow> False | Some s \<Rightarrow> s \<noteq> [])"

definition randint :: "nat \<Rightarrow> int" where
  "randint r = 1000 + int (r mod 9000)"

definition fallback_json :: "string \<Rightarrow> string \<Rightarrow> parsed" where
  "fallback_json ttl text =
     Obj \<lparr>j_title = Some ttl, j_description = Some text, j_image_prompt = Some text,
          j_exit_labels = Some [(''1'', ''Left''), (''2'', ''Right'')]\<rparr>"

definition from_http :: "'a http \<Rightarrow> py_error + 'a" where
  "from_http r =
     (case r of
        Unreachable \<Rightarrow> Inl RequestException
      | BadStatus \<Rightarrow> Inl HTTPError
      | BodyNotJson \<Rightarrow> Inl JSONDecodeError
      | Body b \<Rightarrow> Inr b)"

definition hf_generate_text :: "adapter_env \<Rightarrow> py_error + parsed" where
  "hf_generate_text e =
     (if \<not> truthy (HF_TOKEN e) then Inl RuntimeError
      else case from_http (hf_post e) of
        Inl err \<Rightarrow> Inl err
      | Inr (HfList text) \<Rightarrow>
          (case json_loads e text of
             Some p \<Rightarrow> Inr p
           | None \<Rightarrow> Inr (fallback_json (''Room '' @ str (randint (randint_draw e))) text))
      | Inr (HfDict text) \<Rightarrow>
          (case json_loads e text of
             Some p \<Rightarrow> Inr p
           | None \<Rightarrow> Inr (fallback_json (''Room '' @ str (randint (randint_draw e))) text))
      | Inr HfError \<Rightarrow> Inl RuntimeError
      | Inr (HfOther p) \<Rightarrow> Inr p)"

definition gemini_generate_text :: "adapter_env \<Rightarrow> py_error + parsed" where
  "gemini_generate_text e =
     (if truthy (GEMINI_API_KEY e) then
        (case from_http (gemini_post e) of
           Inl err \<Rightarrow> Inl err
         | Inr (GemCandidates text) \<Rightarrow>
             (case json_loads e text of
                Some p \<Rightarrow> Inr p
              | None \<Rightarrow> Inr (fallback_json (''Room '' @ str (randint (randint_draw e))) text))
         | Inr (GemOutput text) \<Rightarrow>
             (case json_loads e text of
                Some p \<Rightarrow> Inr p
              | None \<Rightarrow> Inr (fallback_json (''Room '' @ str (randint (randint_draw e))) text))
         | Inr (GemOther p) \<Rightarrow> Inr p)
      else Inl RuntimeError)"

definition openai_generate_text :: "adapter_env \<Rightarrow> py_error + parsed" where
  "openai_generate_text e =
     (if \<not> openai_installed e then Inl RuntimeError
      else case openai_chat e of
        None \<Rightarrow> Inl OtherException
      | Some text \<Rightarrow>
          (case json_loads e text of
             Some p \<Rightarrow> Inr p
           | None \<Rightarrow> Inr (fallback_json ''Room'' text)))"

definition local_json :: "nat \<Rightarrow> parsed" where
  "local_json r =
     Obj \<lparr>j_title = Some (''Local Room '' @ str (randint r)),
          j_description = Some ''A locally-generated placeholder room. No external API configured.'',
          j_image_prompt = Some ''a simple abstract room'',
          j_exit_labels = Some [(''1'', ''Left''), (''2'', ''Right'')]\<rparr>"

definition generate_room_text :: "adapter_env \<Rightarrow> py_error + parsed" where
  "generate_room_text e =
     (let provider = (case PROVIDER_TEXT e of None \<Rightarrow> ''huggingface'' | Some p \<Rightarrow> p)
      in if provider = ''huggingface'' then hf_generate_text e
         else if provider = ''gemini'' then gemini_generate_text e
         else if provider = ''openai'' then openai_generate_text e
         else if provider = ''local'' then Inr (local_json (randint_draw e))
         else Inl RuntimeError)"

subsection \<open>Room store\<close>

text \<open>
  \<^verbatim>\<open>load_data\<close>: the default single-room world, written to the file when the file
  does not exist; the file's content otherwise.
\<close>

definition first_chamber :: room where
  "first_chamber =
     \<lparr>room_id = 0, title = ''The First Chamber'',
      description = ''You awaken in a dim chamber with two shimmering portals. The doorway you came through has vanished. Each portal bears a sign written in an unfamiliar script. The air tastes faintly of iron and rain.'',
      room_image = '''', coins = 1,
      exits = [\<lparr>role = ''home_or_death'', label = ''Left portal'', target = None\<rparr>,
               \<lparr>role = ''existing_or_new'', label = ''Right portal'', target = None\<rparr>]\<rparr>"

definition default_world :: world where
  "default_world =
     \<lparr>next_id = 1, total_generated = Some 0, start_room = 0, rooms = [(0, first_chamber)]\<rparr>"

definition load_data :: "world option \<Rightarrow> state" where
  "load_data f =
     (case f of
        None \<Rightarrow> \<lparr>data = default_world, rooms_json = Some default_world\<rparr>
      | Some w \<Rightarrow> \<lparr>data = w, rooms_json = Some w\<rparr>)"

definition save_data :: "state \<Rightarrow> state" where
  "save_data s = s\<lparr>rooms_json := Some (data s)\<rparr>"

text \<open>\<^verbatim>\<open>data["next_id"] = v\<close>, \<^verbatim>\<open>data["total_generated"] = v\<close>, \<^verbatim>\<open>data["rooms"][str(k)] = r\<close>.\<close>

definition set_next_id :: "int \<Rightarrow> state \<Rightarrow> state" where
  "set_next_id v s = s\<lparr>data := (data s)\<lparr>next_id := v\<rparr>\<rparr>"

definition set_total_generated :: "int \<Rightarrow> state \<Rightarrow> state" where
  "set_total_generated v s = s\<lparr>data := (data s)\<lparr>total_generated := Some v\<rparr>\<rparr>"

definition put_room :: "int \<Rightarrow> room \<Rightarrow> state \<Rightarrow> state" where
  "put_room k r s = s\<lparr>data := (data s)\<lparr>rooms := AList.update k r (rooms (data s))\<rparr>\<rparr>"

text \<open>\<^verbatim>\<open>data.get("total_generated", 0)\<close>.\<close>

definition get_total_generated :: "world \<Rightarrow> int" where
  "get_total_generated w = (case total_generated w of None \<Rightarrow> 0 | Some n \<Rightarrow> n)"

definition image_path_for :: "int \<Rightarrow> string" where
  "image_path_for rid = ''images/room_'' @ str rid @ ''.png''"

subsection \<open>Room factory\<close>

text \<open>
  The dictionary a caller hands to the factory (\<^verbatim>\<open>admin_room\<close>, \<^verbatim>\<open>manual\<close>): each
  key may be absent. Python's \<^verbatim>\<open>if manual:\<close> holds for a dictionary with a key.
\<close>

record manual =
  m_title :: "string option"
  m_description :: "string option"
  m_coins :: "int option"
  m_exits :: "exit_rec list option"
  m_image :: "string option"

definition dict_truthy :: "manual option \<Rightarrow> bool" where
  "dict_truthy d =
     (case d of
        None \<Rightarrow> False
      | Some m \<Rightarrow> m_title m \<noteq> None \<or> m_description m \<noteq> None \<or> m_coins m \<noteq> None
                 \<or> m_exits m \<noteq> None \<or> m_image m \<noteq> None)"

definition default_exits :: "exit_rec list" where
  "default_exits =
     [\<lparr>role = ''home_or_death'', label = ''Left'', target = None\<rparr>,
      \<lparr>role = ''existing_or_new'', label = ''Right'', target = None\<rparr>]"

text \<open>
  What one AI generation consumes from outside: the console, the adapter's environment,
  the two random draws for the coins (\<^verbatim>\<open>random.random()\<close> and the index
  \<^verbatim>\<open>random.choice\<close> takes in \<^verbatim>\<open>[1,2]\<close>), the switch \<^verbatim>\<open>NO_IMAGES\<close>, and whether
  generating and saving the image raised (\<open>Inl\<close> the text of the exception).
\<close>

record gen_io = outside +
  adapter :: adapter_env
  coin_roll :: rat
  coin_choice :: nat
  NO_IMAGES :: bool
  image_result :: "string + unit"

definition computer_room :: "int \<Rightarrow> room" where
  "computer_room rid =
     \<lparr>room_id = rid, title = ''Room Creation Computer'',
      description = ''A humming floor of glass and chrome displays a console of infinite options. Insert coins to create a custom room, or provide admin credentials to bypass.'',
      room_image = '''', coins = 0,
      exits = [\<lparr>role = ''home_or_death'', label = ''Left Console Gate'', target = None\<rparr>,
               \<lparr>role = ''existing_or_new'', label = ''Right Console Gate'', target = None\<rparr>]\<rparr>"

definition get_label :: "(string \<times> string) list \<Rightarrow> string \<Rightarrow> string \<Rightarrow> string" where
  "get_label labels k dflt = (case map_of labels k of None \<Rightarrow> dflt | Some l \<Rightarrow> l)"

text \<open>The room built from the provider's dictionary (source lines 117 to 145).\<close>

definition generated_room :: "gen_io \<Rightarrow> int \<Rightarrow> room_json \<Rightarrow> room" where
  "generated_room io rid j =
     (let ttl = (case j_title j of None \<Rightarrow> ''Room '' @ str rid | Some t \<Rightarrow> t);
          dsc = (case j_description j of None \<Rightarrow> ''An indescribable place.'' | Some d \<Rightarrow> d);
          labels = (case j_exit_labels j of None \<Rightarrow> [] | Some l \<Rightarrow> l);
          exs = [\<lparr>role = ''home_or_death'', label = get_label labels ''1'' ''Left'', target = None\<rparr>,
                 \<lparr>role = ''existing_or_new'', label = get_label labels ''2'' ''Right'', target = None\<rparr>];
          cns = (if coin_roll io < 1 / 4 then [1, 2] ! (coin_choice io mod 2) else 0);
          img = (if NO_IMAGES io then ''''
                 else case image_result io of Inr _ \<Rightarrow> image_path_for rid | Inl _ \<Rightarrow> '''')
      in \<lparr>room_id = rid, title = ttl, description = dsc, room_image = img, coins = cns,
          exits = exs\<rparr>)"

text \<open>
  The \<^verbatim>\<open>except\<close> branch of the image generation prints the exception; when rich
  does not render that text, the print raises inside the handler.
\<close>

definition image_failure_raises :: "gen_io \<Rightarrow> bool" where
  "image_failure_raises io =
     (if NO_IMAGES io then False
      else case image_result io of
        Inr _ \<Rightarrow> False
      | Inl msg \<Rightarrow> \<not> console io (''[red]Image generation failed: '' @ msg @ ''[/red]''))"

text \<open>\<^verbatim>\<open>game.py\<close>, \<^verbatim>\<open>create_new_room(data, seed, admin_room)\<close>.\<close>

definition create_new_room :: "gen_io \<Rightarrow> manual option \<Rightarrow> state \<Rightarrow> py_error + (room \<times> state)" where
  "create_new_room io admin_room s =
     (let rid = next_id (data s);
          s1 = set_next_id (rid + 1) s
      in if dict_truthy admin_room then
           (let m = the admin_room;
                r = \<lparr>room_id = rid,
                     title = (case m_title m of None \<Rightarrow> ''Admin Room '' @ str rid | Some t \<Rightarrow> t),
                     description = (case m_description m of None \<Rightarrow> '''' | Some d \<Rightarrow> d),
                     room_image = '''',
                     coins = (case m_coins m of None \<Rightarrow> 0 | Some c \<Rightarrow> c),
                     exits = (case m_exits m of None \<Rightarrow> default_exits | Some x \<Rightarrow> x)\<rparr>
            in Inr (r, save_data (put_room rid r s1)))
         else
           (case generate_room_text (adapter io) of
              Inl err \<Rightarrow> Inl err
            | Inr parsed_json \<Rightarrow>
                (let s2 = set_total_generated (get_total_generated (data s1) + 1) s1
                 in if get_total_generated (data s2) mod 10 = 0 then
                      Inr (computer_room rid, save_data (put_room rid (computer_room rid) s2))
                    else
                      (case parsed_json of
                         NonObj \<Rightarrow> Inl AttributeError
                       | Obj j \<Rightarrow>
                           (if image_failure_raises io then Inl MarkupError
                            else
                              (let r = generated_room io rid j
                               in Inr (r, save_data (put_room rid r s2))))))))"

text \<open>History snapshot, \<^verbatim>\<open>create_new_room_ai(data, seed)\<close>.\<close>

definition create_new_room_ai :: "gen_io \<Rightarrow> state \<Rightarrow> py_error + (room \<times> state)" where
  "create_new_room_ai io s =
     (let rid = next_id (data s);
          s1 = set_next_id (rid + 1) s
      in case generate_room_text (adapter io) of
           Inl err \<Rightarrow> Inl err
         | Inr parsed_json \<Rightarrow>
             (let s2 = set_total_generated (get_total_generated (data s1) + 1) s1
              in if get_total_generated (data s2) mod 10 = 0 then
                   Inr (computer_room rid, save_data (put_room rid (computer_room rid) s2))
                 else
                   (case parsed_json of
                      NonObj \<Rightarrow> Inl AttributeError
                    | Obj j \<Rightarrow>
                        (if image_failure_raises io then Inl MarkupError
                         else
                           (let r = generated_room io rid j
                            in Inr (r, save_data (put_room rid r s2)))))))"

text \<open>
  The answers typed at the prompts. A number is the value \<^verbatim>\<open>int(...)\<close> made of the
  answer, \<open>None\<close> when \<^verbatim>\<open>int\<close> raises \<^verbatim>\<open>ValueError\<close>. A role is one of the three
  choices the prompt accepts.
\<close>

datatype role_choice = HomeOrDeath | ExistingOrNew | Link

definition role_name :: "role_choice \<Rightarrow> string" where
  "role_name c =
     (case c of HomeOrDeath \<Rightarrow> ''home_or_death'' | ExistingOrNew \<Rightarrow> ''existing_or_new''
      | Link \<Rightarrow> ''link'')"

record exit_answers =
  ask_role :: role_choice
  ask_label :: string
  ask_target :: "int option"

record answers =
  ask_title :: string
  ask_description :: string
  ask_coins :: "int option"
  ask_exit1 :: exit_answers
  ask_exit2 :: exit_answers
  ask_image_path :: string
  ask_label_for_current_exit :: string
  ask_img_input :: string

text \<open>One round of the loop \<^verbatim>\<open>for i in (1, 2)\<close> of \<^verbatim>\<open>create_manual_room\<close>.\<close>

definition configure_exit :: "exit_answers \<Rightarrow> py_error + exit_rec" where
  "configure_exit a =
     (if ask_role a = Link then
        (case ask_target a of
           None \<Rightarrow> Inl ValueError
         | Some t \<Rightarrow> Inr \<lparr>role = role_name (ask_role a), label = ask_label a, target = Some t\<rparr>)
      else Inr \<lparr>role = role_name (ask_role a), label = ask_label a, target = None\<rparr>)"

text \<open>
  What a manual creation or a design is handed from outside: the console; whether
  \<^verbatim>\<open>process_and_save_image\<close> raised (\<open>Inl\<close> the text of the exception); and the
  upload server: \<open>Inl\<close> when \<^verbatim>\<open>UploadServer(...)\<close> or \<^verbatim>\<open>start()\<close> raised, else what
  \<^verbatim>\<open>wait_for_upload\<close> returned.
\<close>

record image_io = outside +
  process_result :: "string + unit"
  upload_result :: "py_error + string option"

text \<open>
  History snapshot, \<^verbatim>\<open>create_manual_room(data, manual)\<close>. The last message carries
  the title and is printed after \<^verbatim>\<open>save_data\<close>: when rich raises on it the file
  already holds the new room, and the function ends with the exception.
\<close>

definition create_manual_room ::
  "manual option \<Rightarrow> answers \<Rightarrow> image_io \<Rightarrow> state \<Rightarrow> py_error + (room \<times> state)" where
  "create_manual_room mn a img s =
     (let rid = next_id (data s);
          s1 = set_next_id (rid + 1) s;
          fields =
            (if dict_truthy mn then
               (let m = the mn
                in Inr ((case m_title m of None \<Rightarrow> ''Room '' @ str rid | Some t \<Rightarrow> t),
                        (case m_description m of None \<Rightarrow> '''' | Some d \<Rightarrow> d),
                        (case m_coins m of None \<Rightarrow> 0 | Some c \<Rightarrow> c),
                        (case m_exits m of None \<Rightarrow> default_exits | Some x \<Rightarrow> x),
                        (case m_image m of None \<Rightarrow> '''' | Some p \<Rightarrow> p)))
             else
               (case ask_coins a of
                  None \<Rightarrow> Inl ValueError
                | Some c \<Rightarrow>
                    (case configure_exit (ask_exit1 a) of
                       Inl err \<Rightarrow> Inl err
                     | Inr e1 \<Rightarrow>
                         (case configure_exit (ask_exit2 a) of
                            Inl err \<Rightarrow> Inl err
                          | Inr e2 \<Rightarrow>
                              Inr (ask_title a, ask_description a, c, [e1, e2],
                                   ask_image_path a)))))
      in case fields of
           Inl err \<Rightarrow> Inl err
         | Inr (ttl, dsc, cns, exs, image_path) \<Rightarrow>
             (let r0 = \<lparr>room_id = rid, title = ttl, description = dsc, room_image = '''',
                        coins = cns, exits = exs\<rparr>;
                  with_image =
                    (if image_path \<noteq> [] then
                       (case process_result img of
                          Inr _ \<Rightarrow> Inr (r0\<lparr>room_image := image_path_for rid\<rparr>)
                        | Inl msg \<Rightarrow>
                            (if console img (''[red]Image processing failed: '' @ msg @ ''[/red]'')
                             then Inr (r0\<lparr>room_image := ''''\<rparr>)
                             else Inl MarkupError))
                     else Inr r0)
              in case with_image of
                   Inl err \<Rightarrow> Inl err
                 | Inr r \<Rightarrow>
                     (if console img (''[green]Created manual room '' @ str rid @ '': '' @ ttl
                                      @ ''[/green]'')
                      then Inr (r, save_data (put_room rid r s1))
                      else Inl MarkupError)))"

text \<open>
  History snapshot, \<^verbatim>\<open>design_room_from_current(data, current_id)\<close>. An exception
  of \<^verbatim>\<open>create_manual_room\<close>, of the upload server or of a message about the image
  ends the function before the current room gets its new exit. The messages of the
  upload branch up to \<^verbatim>\<open>wait_for_upload\<close> and the last message are made of fixed
  text and numbers.
\<close>

definition design_room_from_current ::
  "answers \<Rightarrow> image_io \<Rightarrow> state \<Rightarrow> int \<Rightarrow> py_error + (room \<times> state)" where
  "design_room_from_current a img s current_id =
     (case map_of (rooms (data s)) current_id of
        None \<Rightarrow> Inl KeyError
      | Some current_room \<Rightarrow>
          (case ask_coins a of
             None \<Rightarrow> Inl ValueError
           | Some c \<Rightarrow>
               (let new_room_manual =
                      \<lparr>m_title = Some (ask_title a), m_description = Some (ask_description a),
                       m_coins = Some c,
                       m_exits = Some
                         [\<lparr>role = ''link'', label = ''Back to '' @ title current_room,
                           target = Some current_id\<rparr>,
                          \<lparr>role = ''existing_or_new'', label = ''Right (mysterious)'',
                           target = None\<rparr>],
                       m_image = Some ''''\<rparr>
                in case create_manual_room (Some new_room_manual) a img s of
                     Inl err \<Rightarrow> Inl err
                   | Inr (new_room0, s1) \<Rightarrow>
                       (let with_image =
                              (if ask_img_input a \<noteq> [] then
                                 (if lower (strip (ask_img_input a)) = ''upload'' then
                                    (case upload_result img of
                                       Inl err \<Rightarrow> Inl err
                                     | Inr saved \<Rightarrow>
                                         (if truthy saved then
                                            (let nr = new_room0\<lparr>room_image := the saved\<rparr>
                                             in if console img
                                                     (''[green]Image uploaded and saved to ''
                                                      @ the saved @ ''[/green]'')
                                                then Inr (nr, save_data (put_room (room_id nr) nr s1))
                                                else Inl MarkupError)
                                          else Inr (new_room0, s1)))
                                  else
                                    (case process_result img of
                                       Inr _ \<Rightarrow>
                                         (let nr = new_room0\<lparr>room_image :=
                                                     image_path_for (room_id new_room0)\<rparr>
                                          in Inr (nr, save_data (put_room (room_id nr) nr s1)))
                                     | Inl msg \<Rightarrow>
                                         (if console img
                                               (''[red]Failed saving uploaded image: '' @ msg
                                                @ ''[/red]'')
                                          then Inr (new_room0, s1)
                                          else Inl MarkupError)))
                               else Inr (new_room0, s1))
                        in case with_image of
                             Inl err \<Rightarrow> Inl err
                           | Inr (new_room, s2) \<Rightarrow>
                               (let new_exit =
                                      \<lparr>role = ''link'', label = ask_label_for_current_exit a,
                                       target = Some (room_id new_room)\<rparr>;
                                    current_room' =
                                      current_room\<lparr>exits := exits current_room @ [new_exit]\<rparr>
                                in Inr (new_room,
                                        save_data (put_room current_id current_room' s2)))))))"

subsection \<open>Random choices\<close>

text \<open>
  \<^verbatim>\<open>random.shuffle(x)\<close> is the loop
  \<^verbatim>\<open>for i in reversed(range(1, len(x))): j = randbelow(i + 1); x[i], x[j] = x[j], x[i]\<close>.
  The draw made at position \<open>i\<close> is \<open>rnd i\<close>, reduced below \<open>i + 1\<close>.
\<close>

fun shuffle_from :: "(nat \<Rightarrow> nat) \<Rightarrow> nat \<Rightarrow> 'a list \<Rightarrow> 'a list" where
  "shuffle_from rnd 0 xs = xs"
| "shuffle_from rnd (Suc i) xs =
     (let j = rnd (Suc i) mod (Suc i + 1)
      in shuffle_from rnd i (xs[Suc i := xs ! j, j := xs ! Suc i]))"

definition shuffle :: "(nat \<Rightarrow> nat) \<Rightarrow> 'a list \<Rightarrow> 'a list" where
  "shuffle rnd xs = shuffle_from rnd (length xs - 1) xs"

text \<open>\<^verbatim>\<open>random.choice(seq)\<close> on a non-empty sequence, by the index it draws.\<close>

definition choice :: "nat \<Rightarrow> 'a list \<Rightarrow> 'a" where
  "choice r xs = xs ! (r mod length xs)"

text \<open>
  \<^verbatim>\<open>pick_existing_room(data, exclude_id)\<close>, the same in both files. The key picked
  is a key of \<open>rooms\<close>, so the final lookup finds a room.
\<close>

definition pick_existing_room :: "nat \<Rightarrow> world \<Rightarrow> int \<Rightarrow> room option" where
  "pick_existing_room r w exclude_id =
     (let ids = filter (\<lambda>k. k \<noteq> exclude_id) (map fst (rooms w))
      in if ids = [] then None else map_of (rooms w) (choice r ids))"

text \<open>
  \<^verbatim>\<open>randomized_exits_for_display(room)\<close>. The function is handed the room object and
  could assign to it; the model returns the room as the call leaves it, beside the
  dictionary from display key to exit. In \<^verbatim>\<open>game.py\<close> the order is a shuffle of
  \<^verbatim>\<open>[0,1]\<close>, and reading index 1 of a shorter exit list raises.
\<close>

definition randomized_exits_for_display ::
  "(nat \<Rightarrow> nat) \<Rightarrow> room \<Rightarrow> py_error + (room \<times> (string \<times> exit_rec) list)" where
  "randomized_exits_for_display rnd r =
     (let exs = exits r;
          order = shuffle rnd [0, 1 :: nat]
      in if length exs < 2 then Inl IndexError
         else Inr (r, [(''1'', exs ! (order ! 0)), (''2'', exs ! (order ! 1))]))"

definition randomized_exits_for_display_hist ::
  "(nat \<Rightarrow> nat) \<Rightarrow> room \<Rightarrow> room \<times> (string \<times> exit_rec) list" where
  "randomized_exits_for_display_hist rnd r =
     (let exs = exits r;
          order = shuffle rnd [0 ..< length exs]
      in (r, zip (map (\<lambda>i. str (int i)) [1 ..< length order + 1]) (map (\<lambda>idx. exs ! idx) order)))"

subsection \<open>World editor (history snapshot)\<close>

datatype exit_number = Exit1 | Exit2

definition exit_index :: "exit_number \<Rightarrow> nat" where
  "exit_index n = (case n of Exit1 \<Rightarrow> 0 | Exit2 \<Rightarrow> 1)"

text \<open>\<^verbatim>\<open>list_rooms(data)\<close>: one line for each room.\<close>

definition list_line :: "room \<Rightarrow> string" where
  "list_line r =
     ''  id='' @ str (room_id r) @ '' title='' @ title r @ '' coins='' @ str (coins r)"

definition list_rooms :: "(string \<Rightarrow> bool) \<Rightarrow> world \<Rightarrow> py_error + unit" where
  "list_rooms con w =
     (if list_all (\<lambda>rid. case map_of (rooms w) rid of None \<Rightarrow> True | Some r \<Rightarrow> con (list_line r))
           (map fst (rooms w))
      then Inr () else Inl MarkupError)"

text \<open>
  \<^verbatim>\<open>view_room_interactive(data)\<close>: the room id typed; the title in a rule, the
  description, one line for each exit.
\<close>

definition view_exit_line :: "nat \<Rightarrow> exit_rec \<Rightarrow> string" where
  "view_exit_line i ex =
     ''  '' @ str (int i) @ ''. label='' @ [CHR 0x27] @ label ex @ [CHR 0x27] @ '' role=''
     @ role ex
     @ (if role ex = ''link'' then '' -> target='' @ target_text (target ex) else '''')"

definition view_room_interactive ::
  "(string \<Rightarrow> bool) \<Rightarrow> int option \<Rightarrow> world \<Rightarrow> py_error + unit" where
  "view_room_interactive con rid_answer w =
     (case rid_answer of
        None \<Rightarrow> Inl ValueError
      | Some rid \<Rightarrow>
          (case map_of (rooms w) rid of
             None \<Rightarrow> Inr ()
           | Some r \<Rightarrow>
               (if con (''[bold]'' @ title r @ '' (id='' @ str (room_id r) @ '')'')
                   \<and> con (description r)
                   \<and> list_all (\<lambda>p. con (view_exit_line (fst p) (snd p)))
                        (zip [1 ..< length (exits r) + 1] (exits r))
                then Inr () else Inl MarkupError)))"

text \<open>
  \<^verbatim>\<open>link_exits_interactive(data)\<close>: the room id typed, the exit number chosen among
  "1" and "2", the target typed. The current exits are printed before the questions.
\<close>

definition link_exit_line :: "nat \<Rightarrow> exit_rec \<Rightarrow> string" where
  "link_exit_line i ex =
     ''  '' @ str (int i) @ ''. label='' @ label ex @ '' role='' @ role ex @ '' target=''
     @ (case target ex of None \<Rightarrow> '''' | Some t \<Rightarrow> str t)"

definition link_exits_interactive ::
  "(string \<Rightarrow> bool) \<Rightarrow> int option \<Rightarrow> exit_number \<Rightarrow> int option \<Rightarrow> state
     \<Rightarrow> py_error + state" where
  "link_exits_interactive con rid_answer ex_i target_answer s =
     (case rid_answer of
        None \<Rightarrow> Inl ValueError
      | Some rid \<Rightarrow>
          (case map_of (rooms (data s)) rid of
             None \<Rightarrow> Inr s
           | Some r \<Rightarrow>
               (if \<not> list_all (\<lambda>p. con (link_exit_line (fst p) (snd p)))
                        (zip [1 ..< length (exits r) + 1] (exits r))
                then Inl MarkupError
                else case target_answer of
                  None \<Rightarrow> Inl ValueError
                | Some tgt \<Rightarrow>
                    (if exit_index ex_i < length (exits r) then
                       (let e = (exits r ! exit_index ex_i)\<lparr>role := ''link'', target := Some tgt\<rparr>;
                            r' = r\<lparr>exits := (exits r)[exit_index ex_i := e]\<rparr>
                        in Inr (save_data (put_room rid r' s)))
                     else Inl IndexError))))"

text \<open>\<^verbatim>\<open>export_map(data)\<close>: one line for each room, with what its exits lead to.\<close>

definition export_line :: "int \<Rightarrow> room \<Rightarrow> string" where
  "export_line rid r =
     '' '' @ str rid @ '': ''
     @ join '' , ''
         (map (\<lambda>ex. if role ex = ''link'' then ''-> '' @ target_text (target ex)
                    else ''('' @ role ex @ '')'')
            (exits r))"

definition export_map :: "(string \<Rightarrow> bool) \<Rightarrow> world \<Rightarrow> py_error + unit" where
  "export_map con w =
     (if list_all (\<lambda>rid. case map_of (rooms w) rid of None \<Rightarrow> True
                          | Some r \<Rightarrow> con (export_line rid r))
           (map fst (rooms w))
      then Inr () else Inl MarkupError)"

text \<open>One choice of the editor's menu.\<close>

datatype editor_cmd =
    EdCreate answers image_io
  | EdList
  | EdView "int option"
  | EdLink "int option" exit_number "int option"
  | EdExport

definition editor_choice :: "(string \<Rightarrow> bool) \<Rightarrow> editor_cmd \<Rightarrow> state \<Rightarrow> py_error + state" where
  "editor_choice con c s =
     (case c of
        EdCreate a img \<Rightarrow>
          (case create_manual_room None a img s of Inl err \<Rightarrow> Inl err | Inr (_, s') \<Rightarrow> Inr s')
      | EdList \<Rightarrow>
          (case list_rooms con (data s) of Inl err \<Rightarrow> Inl err | Inr _ \<Rightarrow> Inr s)
      | EdView rid_answer \<Rightarrow>
          (case view_room_interactive con rid_answer (data s) of
             Inl err \<Rightarrow> Inl err
           | Inr _ \<Rightarrow> Inr s)
      | EdLink rid_answer ex_i target_answer \<Rightarrow>
          link_exits_interactive con rid_answer ex_i target_answer s
      | EdExport \<Rightarrow>
          (case export_map con (data s) of Inl err \<Rightarrow> Inl err | Inr _ \<Rightarrow> Inr s))"

text \<open>
  \<^verbatim>\<open>editor_menu(data)\<close>: the choices made, in order, before choice 6 leaves the menu.
\<close>

fun editor_menu :: "(string \<Rightarrow> bool) \<Rightarrow> editor_cmd list \<Rightarrow> state \<Rightarrow> py_error + state" where
  "editor_menu con [] s = Inr s"
| "editor_menu con (c # cs) s =
     (case editor_choice con c s of Inl err \<Rightarrow> Inl err | Inr s' \<Rightarrow> editor_menu con cs s')"

subsection \<open>Play loop (history snapshot)\<close>

record game =
  st :: state
  current_id :: int
  player_coins :: int

record config =
  ADMIN_PASS :: "string option"
  COIN_COST :: int

datatype ending = Quit | Won | Died

datatype step_result = Continue game | Break ending game | Raised py_error

text \<open>
  The head of the loop body of \<^verbatim>\<open>play_game\<close> and \<^verbatim>\<open>play_game_loop\<close>: the current
  room is looked up and its coins are picked up.
\<close>

definition pickup_coins :: "game \<Rightarrow> py_error + (room \<times> game)" where
  "pickup_coins g =
     (case map_of (rooms (data (st g))) (current_id g) of
        None \<Rightarrow> Inl KeyError
      | Some r \<Rightarrow>
          (if coins r > 0 then
             (let r' = r\<lparr>coins := 0\<rparr>
              in Inr (r', g\<lparr>player_coins := player_coins g + coins r,
                            st := save_data (put_room (current_id g) r' (st g))\<rparr>))
           else Inr (r, g)))"

text \<open>
  \<^verbatim>\<open>display_room(room, player_coins)\<close>, the same in both files: the title in a rule,
  the description, the image path when there is one; the coins are numbers.
\<close>

definition display_room :: "(string \<Rightarrow> bool) \<Rightarrow> room \<Rightarrow> int \<Rightarrow> py_error + unit" where
  "display_room con r coins_held =
     (if con (''[bold cyan]'' @ title r @ '' (id='' @ str (room_id r) @ '')'')
         \<and> con (description r)
         \<and> (room_image r = [] \<or> con (''[dim]Image file: '' @ room_image r @ ''[/dim]''))
      then Inr () else Inl MarkupError)"

text \<open>The line printed for each displayed exit, in \<^verbatim>\<open>game.py\<close> and in the history snapshot.\<close>

definition exit_line :: "string \<times> exit_rec \<Rightarrow> string" where
  "exit_line p = ''  '' @ fst p @ ''. '' @ label (snd p)"

definition exit_line_hist :: "string \<times> exit_rec \<Rightarrow> string" where
  "exit_line_hist p =
     ''  '' @ fst p @ ''. '' @ label (snd p)
     @ (if role (snd p) = ''link'' then '' -> '' @ target_text (target (snd p)) else '''')"

text \<open>The messages after a generation and after a teleport, with the room's title.\<close>

definition generated_message :: "room \<Rightarrow> string" where
  "generated_message r =
     ''[green]A new room was generated: '' @ title r @ '' (id='' @ str (room_id r) @ '')[/green]''"

definition transported_message :: "room \<Rightarrow> string" where
  "transported_message r =
     ''[cyan]You are transported to an existing room: '' @ title r @ '' (id=''
     @ str (room_id r) @ '')[/cyan]''"

record admin_answers =
  adm_title :: string
  adm_desc :: string
  adm_llabel :: string
  adm_rlabel :: string
  adm_coins_here :: "int option"

text \<open>Everything one round of the loop reads from the player and from outside.\<close>

record turn = outside +
  shuffle_draws :: "nat \<Rightarrow> nat"
  action :: string
  editor_cmds :: "editor_cmd list"
  typed :: answers
  images :: image_io
  admin_pw :: string
  admin_confirm_y :: bool
  admin_typed :: admin_answers
  win_roll :: rat
  gen_roll :: rat
  pick_draw :: nat
  gen :: gen_io

text \<open>History snapshot, \<^verbatim>\<open>run_admin_create(data, player_coins)\<close>.\<close>

definition run_admin_create_hist ::
  "admin_answers \<Rightarrow> answers \<Rightarrow> image_io \<Rightarrow> state \<Rightarrow> py_error + (room \<times> state)" where
  "run_admin_create_hist aa a img s =
     (case adm_coins_here aa of
        None \<Rightarrow> Inl ValueError
      | Some coins_here \<Rightarrow>
          (let exs = [\<lparr>role = ''home_or_death'', label = adm_llabel aa, target = None\<rparr>,
                      \<lparr>role = ''existing_or_new'', label = adm_rlabel aa, target = None\<rparr>];
               admin_room = \<lparr>m_title = Some (adm_title aa), m_description = Some (adm_desc aa),
                              m_coins = Some coins_here, m_exits = Some exs, m_image = None\<rparr>
           in create_manual_room (Some admin_room) a img s))"

text \<open>
  Lines 624 to 661 of \<^verbatim>\<open>play_game_loop\<close>: what the chosen exit does. After the
  message for a link whose target is missing, control goes on to the tests on the role.
  The messages after a generation and after a teleport carry the room's title.
\<close>

definition resolve_exit :: "turn \<Rightarrow> room \<Rightarrow> exit_rec \<Rightarrow> game \<Rightarrow> step_result" where
  "resolve_exit t r chosen g =
     (let followed =
            (if role chosen = ''link'' \<and> target chosen \<noteq> None then
               (if the (target chosen) \<in> fst ` set (rooms (data (st g)))
                then Some (the (target chosen)) else None)
             else None)
      in case followed of
           Some tgt \<Rightarrow> Continue (g\<lparr>current_id := tgt\<rparr>)
         | None \<Rightarrow>
             (if role chosen = ''home_or_death'' then
                (if win_roll t < 3 / 4 then Break Won g else Break Died g)
              else if role chosen = ''existing_or_new'' then
                (if gen_roll t < 1 / 4 then
                   (case create_new_room_ai (gen t) (st g) of
                      Inl err \<Rightarrow> Raised err
                    | Inr (new_room, s') \<Rightarrow>
                        (if console t (generated_message new_room)
                         then Continue (g\<lparr>st := s', current_id := room_id new_room\<rparr>)
                         else Raised MarkupError))
                 else
                   (case pick_existing_room (pick_draw t) (data (st g)) (room_id r) of
                      Some pick \<Rightarrow>
                        (if console t (transported_message pick)
                         then Continue (g\<lparr>current_id := room_id pick\<rparr>)
                         else Raised MarkupError)
                    | None \<Rightarrow>
                        (case create_new_room_ai (gen t) (st g) of
                           Inl err \<Rightarrow> Raised err
                         | Inr (new_room, s') \<Rightarrow>
                             Continue (g\<lparr>st := s', current_id := room_id new_room\<rparr>))))
              else
                (case pick_existing_room (pick_draw t) (data (st g)) (room_id r) of
                   Some pick \<Rightarrow> Continue (g\<lparr>current_id := room_id pick\<rparr>)
                 | None \<Rightarrow>
                     (case create_new_room_ai (gen t) (st g) of
                        Inl err \<Rightarrow> Raised err
                      | Inr (new_room, s') \<Rightarrow>
                          Continue (g\<lparr>st := s', current_id := room_id new_room\<rparr>)))))"

text \<open>Lines 597 to 622: the command \<^verbatim>\<open>admin\<close>.\<close>

definition admin_command :: "config \<Rightarrow> turn \<Rightarrow> room \<Rightarrow> game \<Rightarrow> step_result" where
  "admin_command cfg t r g =
     (if title r \<noteq> ''Room Creation Computer'' then Continue g
      else if admin_pw t \<noteq> [] then
        (if truthy (ADMIN_PASS cfg) \<and> Some (admin_pw t) = ADMIN_PASS cfg then
           (case run_admin_create_hist (admin_typed t) (typed t) (images t) (st g) of
              Inl err \<Rightarrow> Raised err
            | Inr (new_room, s') \<Rightarrow> Continue (g\<lparr>st := s', current_id := room_id new_room\<rparr>))
         else Continue g)
      else if player_coins g \<ge> COIN_COST cfg then
        (if admin_confirm_y t then
           (let g1 = g\<lparr>player_coins := player_coins g - COIN_COST cfg\<rparr>
            in case run_admin_create_hist (admin_typed t) (typed t) (images t) (st g1) of
                 Inl err \<Rightarrow> Raised err
               | Inr (new_room, s') \<Rightarrow>
                   Continue (g1\<lparr>st := s', current_id := room_id new_room\<rparr>))
         else Continue g)
      else Continue g)"

text \<open>One round of the \<^verbatim>\<open>while True\<close> loop of \<^verbatim>\<open>play_game_loop\<close>.\<close>

definition play_game_loop_step :: "config \<Rightarrow> turn \<Rightarrow> game \<Rightarrow> step_result" where
  "play_game_loop_step cfg t g0 =
     (case pickup_coins g0 of
        Inl err \<Rightarrow> Raised err
      | Inr (r, g) \<Rightarrow>
          (case display_room (console t) r (player_coins g) of
             Inl err \<Rightarrow> Raised err
           | Inr _ \<Rightarrow>
               (let disp_exits = snd (randomized_exits_for_display_hist (shuffle_draws t) r);
                    only_one_exit = (length (exits r) = 1);
                    act = lower (action t)
                in if \<not> list_all (\<lambda>p. console t (exit_line_hist p)) disp_exits
                   then Raised MarkupError
                   else if act \<in> {''q'', ''quit'', ''exit''} then Break Quit g
                   else if act \<in> {''help'', ''?''} then Continue g
                   else if startswith act ''editor'' then
                     (case editor_menu (console t) (editor_cmds t) (st g) of
                        Inl err \<Rightarrow> Raised err
                      | Inr s' \<Rightarrow> Continue (g\<lparr>st := s'\<rparr>))
                   else if startswith act ''design'' then
                     (if \<not> only_one_exit then Continue g
                      else case design_room_from_current (typed t) (images t) (st g)
                                  (current_id g) of
                             Inl err \<Rightarrow> Raised err
                           | Inr (new_room, s') \<Rightarrow>
                               Continue (g\<lparr>st := s', current_id := room_id new_room\<rparr>))
                   else if startswith act ''admin'' then admin_command cfg t r g
                   else
                     (case map_of disp_exits (action t) of
                        Some chosen \<Rightarrow> resolve_exit t r chosen g
                      | None \<Rightarrow> Continue g))))"

text \<open>
  \<^verbatim>\<open>play_game_loop\<close> up to its loop: the world is loaded, the player stands in the
  start room with no coins.
\<close>

definition initial_game :: "world option \<Rightarrow> game" where
  "initial_game f =
     (let s = load_data f
      in \<lparr>st = s, current_id = start_room (data s), player_coins = 0\<rparr>)"

text \<open>The states the loop can be in: the initial one and every one a round continues with.\<close>

inductive reachable :: "config \<Rightarrow> world option \<Rightarrow> game \<Rightarrow> bool" for cfg f where
  reach_init: "reachable cfg f (initial_game f)"
| reach_step: "reachable cfg f g \<Longrightarrow> play_game_loop_step cfg t g = Continue g' \<Longrightarrow> reachable cfg f g'"

subsection \<open>Play loop (game.py)\<close>

text \<open>\<^verbatim>\<open>game.py\<close>, \<^verbatim>\<open>run_admin_create(data, player_coins)\<close>.\<close>

definition run_admin_create :: "admin_answers \<Rightarrow> gen_io \<Rightarrow> state \<Rightarrow> py_error + (room \<times> state)" where
  "run_admin_create aa io s =
     (case adm_coins_here aa of
        None \<Rightarrow> Inl ValueError
      | Some coins_here \<Rightarrow>
          (let exs = [\<lparr>role = ''home_or_death'', label = adm_llabel aa, target = None\<rparr>,
                      \<lparr>role = ''existing_or_new'', label = adm_rlabel aa, target = None\<rparr>];
               admin_room = \<lparr>m_title = Some (adm_title aa), m_description = Some (adm_desc aa),
                              m_coins = Some coins_here, m_exits = Some exs, m_image = None\<rparr>
           in create_new_room io (Some admin_room) s))"

text \<open>Lines 216 to 241 of \<^verbatim>\<open>play_game\<close>: the command \<^verbatim>\<open>admin\<close>.\<close>

definition admin_command_game :: "config \<Rightarrow> turn \<Rightarrow> room \<Rightarrow> game \<Rightarrow> step_result" where
  "admin_command_game cfg t r g =
     (if title r \<noteq> ''Room Creation Computer'' then Continue g
      else if admin_pw t \<noteq> [] then
        (if truthy (ADMIN_PASS cfg) \<and> Some (admin_pw t) = ADMIN_PASS cfg then
           (case run_admin_create (admin_typed t) (gen t) (st g) of
              Inl err \<Rightarrow> Raised err
            | Inr (new_room, s') \<Rightarrow> Continue (g\<lparr>st := s', current_id := room_id new_room\<rparr>))
         else Continue g)
      else if player_coins g \<ge> COIN_COST cfg then
        (if admin_confirm_y t then
           (let g1 = g\<lparr>player_coins := player_coins g - COIN_COST cfg\<rparr>
            in case run_admin_create (admin_typed t) (gen t) (st g1) of
                 Inl err \<Rightarrow> Raised err
               | Inr (new_room, s') \<Rightarrow>
                   Continue (g1\<lparr>st := s', current_id := room_id new_room\<rparr>))
         else Continue g)
      else Continue g)"

text \<open>Lines 243 to 273 of \<^verbatim>\<open>play_game\<close>: what the chosen exit does.\<close>

definition resolve_exit_game :: "turn \<Rightarrow> room \<Rightarrow> exit_rec \<Rightarrow> game \<Rightarrow> step_result" where
  "resolve_exit_game t r chosen g =
     (if role chosen = ''home_or_death'' then
        (if win_roll t < 3 / 4 then Break Won g else Break Died g)
      else if role chosen = ''existing_or_new'' then
        (if gen_roll t < 1 / 4 then
           (case create_new_room (gen t) None (st g) of
              Inl err \<Rightarrow> Raised err
            | Inr (new_room, s') \<Rightarrow>
                (if console t (generated_message new_room)
                 then Continue (g\<lparr>st := s', current_id := room_id new_room\<rparr>)
                 else Raised MarkupError))
         else
           (case pick_existing_room (pick_draw t) (data (st g)) (room_id r) of
              Some pick \<Rightarrow>
                (if console t (transported_message pick)
                 then Continue (g\<lparr>current_id := room_id pick\<rparr>)
                 else Raised MarkupError)
            | None \<Rightarrow>
                (case create_new_room (gen t) None (st g) of
                   Inl err \<Rightarrow> Raised err
                 | Inr (new_room, s') \<Rightarrow>
                     Continue (g\<lparr>st := s', current_id := room_id new_room\<rparr>))))
      else
        (case pick_existing_room (pick_draw t) (data (st g)) (room_id r) of
           Some pick \<Rightarrow> Continue (g\<lparr>current_id := room_id pick\<rparr>)
         | None \<Rightarrow>
             (case create_new_room (gen t) None (st g) of
                Inl err \<Rightarrow> Raised err
              | Inr (new_room, s') \<Rightarrow>
                  Continue (g\<lparr>st := s', current_id := room_id new_room\<rparr>))))"

text \<open>One round of the \<^verbatim>\<open>while True\<close> loop of \<^verbatim>\<open>play_game\<close>.\<close>

definition play_game_step :: "config \<Rightarrow> turn \<Rightarrow> game \<Rightarrow> step_result" where
  "play_game_step cfg t g0 =
     (case pickup_coins g0 of
        Inl err \<Rightarrow> Raised err
      | Inr (r, g) \<Rightarrow>
          (case display_room (console t) r (player_coins g) of
             Inl err \<Rightarrow> Raised err
           | Inr _ \<Rightarrow>
               (case randomized_exits_for_display (shuffle_draws t) r of
                  Inl err \<Rightarrow> Raised err
                | Inr (_, disp_exits) \<Rightarrow>
                    (let act = lower (action t)
                     in if \<not> list_all (\<lambda>p. console t (exit_line p)) disp_exits
                        then Raised MarkupError
                        else if act \<in> {''q'', ''quit'', ''exit''} then Break Quit g
                        else if act \<in> {''help'', ''?''} then Continue g
                        else if startswith act ''admin'' then admin_command_game cfg t r g
                        else if action t = ''1'' \<or> action t = ''2'' then
                          (case map_of disp_exits (action t) of
                             Some chosen \<Rightarrow> resolve_exit_game t r chosen g
                           | None \<Rightarrow> Raised KeyError)
                        else Continue g))))"

subsection \<open>Sequences of room creations\<close>

text \<open>
  A call of one of the four functions that create a room, and a sequence of such calls
  on one world. A call that raises ends the process, so the sequence stops there.
  \<open>assigned_ids\<close> lists the ids the calls gave to their rooms, \<open>next_ids\<close> the
  values of \<open>next_id\<close>: before the first call and after each call.
\<close>

datatype creation =
    ByCreateNewRoom gen_io "manual option"
  | ByCreateNewRoomAI gen_io
  | ByCreateManualRoom "manual option" answers image_io
  | ByDesign answers image_io int

definition create :: "creation \<Rightarrow> state \<Rightarrow> py_error + (room \<times> state)" where
  "create c s =
     (case c of
        ByCreateNewRoom io admin_room \<Rightarrow> create_new_room io admin_room s
      | ByCreateNewRoomAI io \<Rightarrow> create_new_room_ai io s
      | ByCreateManualRoom mn a img \<Rightarrow> create_manual_room mn a img s
      | ByDesign a img cur \<Rightarrow> design_room_from_current a img s cur)"

fun create_all :: "creation list \<Rightarrow> state \<Rightarrow> (room \<times> state) list" where
  "create_all [] s = []"
| "create_all (c # cs) s =
     (case create c s of
        Inl err \<Rightarrow> []
      | Inr (r, s') \<Rightarrow> (r, s') # create_all cs s')"

definition assigned_ids :: "creation list \<Rightarrow> state \<Rightarrow> int list" where
  "assigned_ids cs s = map (\<lambda>p. room_id (fst p)) (create_all cs s)"

definition next_ids :: "creation list \<Rightarrow> state \<Rightarrow> int list" where
  "next_ids cs s = next_id (data s) # map (\<lambda>p. next_id (data (snd p))) (create_all cs s)"

subsection \<open>Properties of worlds and runs\<close>

text \<open>The exit \<^verbatim>\<open>new_exit\<close> that the design workflow appends to the current room.\<close>

definition design_exit :: "answers \<Rightarrow> room \<Rightarrow> exit_rec" where
  "design_exit a new_room =
     \<lparr>role = ''link'', label = ask_label_for_current_exit a, target = Some (room_id new_room)\<rparr>"

text \<open>
  The store's bookkeeping invariant: every id in use is below \<open>next_id\<close>, so the next
  room never takes the key of an existing one.
\<close>

definition ids_fresh :: "world \<Rightarrow> bool" where
  "ids_fresh w = (\<forall>k \<in> fst ` set (rooms w). k < next_id w)"

text \<open>Every room is stored under its own id.\<close>

definition ids_match :: "world \<Rightarrow> bool" where
  "ids_match w = (\<forall>p \<in> set (rooms w). room_id (snd p) = fst p)"

text \<open>
  \<open>kept_rooms X w w'\<close>: every room of \<open>w\<close> whose key is outside \<open>X\<close> is the same
  record, under the same key, in \<open>w'\<close>.
\<close>

definition kept_rooms :: "int set \<Rightarrow> world \<Rightarrow> world \<Rightarrow> bool" where
  "kept_rooms X w w' =
     (\<forall>k \<in> fst ` set (rooms w) - X. map_of (rooms w') k = map_of (rooms w) k)"

text \<open>
  The exit-count invariant of a world, and of a process state: the world in memory and
  the world in the file both satisfy it.
\<close>

definition exits_ok :: "world \<Rightarrow> bool" where
  "exits_ok w =
     (\<forall>p \<in> set (rooms w). length (exits (snd p)) = 1 \<or> length (exits (snd p)) = 2)"

definition state_exits_ok :: "state \<Rightarrow> bool" where
  "state_exits_ok s =
     (exits_ok (data s) \<and> (case rooms_json s of None \<Rightarrow> True | Some w \<Rightarrow> exits_ok w))"

text \<open>
  \<open>spent_ok K w\<close>: the ids in use are below \<open>next_id\<close>, and every room with a key in
  \<open>K\<close> is in the store with no coins left to pick up.
\<close>

definition spent_ok :: "int set \<Rightarrow> world \<Rightarrow> bool" where
  "spent_ok K w =
     (ids_fresh w \<and> (\<forall>k \<in> K. \<exists>r. map_of (rooms w) k = Some r \<and> coins r \<le> 0))"

text \<open>The rounds of the play loop that follow a state, any number of them.\<close>

inductive later :: "config \<Rightarrow> game \<Rightarrow> game \<Rightarrow> bool" for cfg g where
  later_now: "later cfg g g"
| later_step: "later cfg g g' \<Longrightarrow> play_game_loop_step cfg t g' = Continue g'' \<Longrightarrow> later cfg g g''"

text \<open>The display shuffle, run once for each draw of a list, on the room it is handed.\<close>

fun redisplay :: "(nat \<Rightarrow> nat) list \<Rightarrow> room \<Rightarrow> room" where
  "redisplay [] r = r"
| "redisplay (rnd # rnds) r = redisplay rnds (fst (randomized_exits_for_display_hist rnd r))"

text \<open>The title the provider gave to the room, when its text parsed to an object with one.\<close>

definition provider_title :: "gen_io \<Rightarrow> string option" where
  "provider_title io =
     (case generate_room_text (adapter io) of
        Inr (Obj j) \<Rightarrow> j_title j
      | _ \<Rightarrow> None)"

subsection \<open>Example inputs\<close>

text \<open>Concrete inputs at which the theorems below are instantiated.\<close>

text \<open>
  In these examples no typed or generated text holds a tag, and the console renders
  every text it is handed.
\<close>

definition renders_all :: "string \<Rightarrow> bool" where
  "renders_all text = True"

definition local_env :: adapter_env where
  "local_env =
     \<lparr>PROVIDER_TEXT = Some ''local'', HF_TOKEN = None, GEMINI_API_KEY = None,
      hf_post = Unreachable, gemini_post = Unreachable, openai_installed = False,
      openai_chat = None, json_loads = (\<lambda>_. None), randint_draw = 0\<rparr>"

definition example_io :: gen_io where
  "example_io =
     \<lparr>console = renders_all, adapter = local_env, coin_roll = 1 / 2, coin_choice = 0, NO_IMAGES = True,
      image_result = Inr ()\<rparr>"

definition example_answers :: answers where
  "example_answers =
     \<lparr>ask_title = ''Attic'', ask_description = ''Dusty.'', ask_coins = Some 2,
      ask_exit1 = \<lparr>ask_role = HomeOrDeath, ask_label = ''Left'', ask_target = None\<rparr>,
      ask_exit2 = \<lparr>ask_role = ExistingOrNew, ask_label = ''Right'', ask_target = None\<rparr>,
      ask_image_path = '''', ask_label_for_current_exit = ''Trapdoor'',
      ask_img_input = ''''\<rparr>"

definition example_images :: image_io where
  "example_images =
     \<lparr>console = renders_all, process_result = Inr (), upload_result = Inr None\<rparr>"

definition example_admin :: admin_answers where
  "example_admin =
     \<lparr>adm_title = ''Vault'', adm_desc = ''Cold.'', adm_llabel = ''Left Door'',
      adm_rlabel = ''Right Door'', adm_coins_here = Some 0\<rparr>"

definition example_manual :: manual where
  "example_manual =
     \<lparr>m_title = Some ''Vault'', m_description = Some ''Cold.'', m_coins = Some 0,
      m_exits = None, m_image = None\<rparr>"

definition cellar :: room where
  "cellar =
     \<lparr>room_id = 0, title = ''Cellar'', description = ''Damp.'', room_image = '''', coins = 2,
      exits = [\<lparr>role = ''existing_or_new'', label = ''Stairs'', target = None\<rparr>]\<rparr>"

definition cellar_world :: world where
  "cellar_world =
     \<lparr>next_id = 1, total_generated = Some 0, start_room = 0, rooms = [(0, cellar)]\<rparr>"

definition cellar_state :: state where
  "cellar_state = \<lparr>data = cellar_world, rooms_json = Some cellar_world\<rparr>"

text \<open>
  A design whose typed title is a closing tag. The console is rich as far as this run
  goes: it raises on the message that carries the title, where \<^verbatim>\<open>[/INST]\<close> closes a
  tag that was never opened.
\<close>

definition inst_answers :: answers where
  "inst_answers =
     \<lparr>ask_title = ''[/INST]'', ask_description = ''Dusty.'', ask_coins = Some 2,
      ask_exit1 = \<lparr>ask_role = HomeOrDeath, ask_label = ''Left'', ask_target = None\<rparr>,
      ask_exit2 = \<lparr>ask_role = ExistingOrNew, ask_label = ''Right'', ask_target = None\<rparr>,
      ask_image_path = '''', ask_label_for_current_exit = ''Trapdoor'',
      ask_img_input = ''''\<rparr>"

definition inst_images :: image_io where
  "inst_images =
     \<lparr>console = (\<lambda>text. text \<noteq> ''[green]Created manual room 1: [/INST][/green]''),
      process_result = Inr (), upload_result = Inr None\<rparr>"

text \<open>A configuration and a round of the play loop to instantiate theorems at.\<close>

definition example_config :: config where
  "example_config = \<lparr>ADMIN_PASS = None, COIN_COST = 3\<rparr>"

definition example_turn :: "string \<Rightarrow> turn" where
  "example_turn act =
     \<lparr>console = renders_all, shuffle_draws = (\<lambda>_. 0), action = act, editor_cmds = [], typed = example_answers,
      images = example_images, admin_pw = '''', admin_confirm_y = True,
      admin_typed = example_admin, win_roll = 0, gen_roll = 1 / 2, pick_draw = 0,
      gen = example_io\<rparr>"

definition hallway :: room where
  "hallway =
     \<lparr>room_id = 1, title = ''Hallway'', description = ''Long.'', room_image = '''', coins = 0,
      exits = default_exits\<rparr>"

definition two_room_world :: world where
  "two_room_world =
     \<lparr>next_id = 2, total_generated = Some 0, start_room = 0,
      rooms = [(0, first_chamber), (1, hallway)]\<rparr>"

text \<open>
  A provider whose text spells out the Room Creation Computer, and the state after the
  first generation with it.
\<close>

definition mimic_json :: room_json where
  "mimic_json =
     \<lparr>j_title = Some ''Room Creation Computer'',
      j_description = Some ''A humming floor of glass and chrome displays a console of infinite options. Insert coins to create a custom room, or provide admin credentials to bypass.'',
      j_image_prompt = None,
      j_exit_labels = Some [(''1'', ''Left Console Gate''), (''2'', ''Right Console Gate'')]\<rparr>"

definition mimic_io :: gen_io where
  "mimic_io =
     \<lparr>console = renders_all,
      adapter = \<lparr>PROVIDER_TEXT = None, HF_TOKEN = Some ''hf_token'', GEMINI_API_KEY = None,
                  hf_post = Body (HfDict ''{...}''), gemini_post = Unreachable,
                  openai_installed = False, openai_chat = None,
                  json_loads = (\<lambda>_. Some (Obj mimic_json)), randint_draw = 0\<rparr>,
      coin_roll = 1 / 2, coin_choice = 0, NO_IMAGES = True, image_result = Inr ()\<rparr>"

definition mimic_state :: state where
  "mimic_state =
     \<lparr>data = \<lparr>next_id = 2, total_generated = Some 1, start_room = 0,
               rooms = [(0, first_chamber), (1, computer_room 1)]\<rparr>,
      rooms_json = Some \<lparr>next_id = 2, total_generated = Some 1, start_room = 0,
                         rooms = [(0, first_chamber), (1, computer_room 1)]\<rparr>\<rparr>"

definition ninth_state :: state where
  "ninth_state =
     \<lparr>data = default_world\<lparr>total_generated := Some 9\<rparr>,
      rooms_json = Some (default_world\<lparr>total_generated := Some 9\<rparr>)\<rparr>"

text \<open>
  A world with a dangling link: the second exit of room 0 is a link to room 7, which
  does not exist. The editor's "Link exits" makes it from \<open>two_room_world\<close>.
\<close>

definition dangling_exit :: exit_rec where
  "dangling_exit = \<lparr>role = ''link'', label = ''Right portal'', target = Some 7\<rparr>"

definition dangling_chamber :: room where
  "dangling_chamber =
     first_chamber\<lparr>coins := 0,
       exits := [\<lparr>role = ''home_or_death'', label = ''Left portal'', target = None\<rparr>,
                 dangling_exit]\<rparr>"

definition dangling_world :: world where
  "dangling_world =
     \<lparr>next_id = 2, total_generated = Some 0, start_room = 0,
      rooms = [(0, dangling_chamber), (1, hallway)]\<rparr>"

definition dangling_game :: game where
  "dangling_game =
     \<lparr>st = \<lparr>data = dangling_world, rooms_json = Some dangling_world\<rparr>,
      current_id = 0, player_coins = 0\<rparr>"

definition lone_game :: game where
  "lone_game =
     \<lparr>st = \<lparr>data = dangling_world\<lparr>next_id := 1, rooms := [(0, dangling_chamber)]\<rparr>,
             rooms_json = Some (dangling_world\<lparr>next_id := 1, rooms := [(0, dangling_chamber)]\<rparr>)\<rparr>,
      current_id = 0, player_coins = 0\<rparr>"

text \<open>
  The default configuration of the adapter: no provider chosen, no Hugging Face key.
  And one with a key, where the request does not get through.
\<close>

definition offline_io :: gen_io where
  "offline_io =
     \<lparr>console = renders_all,
      adapter = \<lparr>PROVIDER_TEXT = None, HF_TOKEN = None, GEMINI_API_KEY = None,
                  hf_post = Unreachable, gemini_post = Unreachable, openai_installed = False,
                  openai_chat = None, json_loads = (\<lambda>_. None), randint_draw = 0\<rparr>,
      coin_roll = 1 / 2, coin_choice = 0, NO_IMAGES = True, image_result = Inr ()\<rparr>"

definition unreachable_io :: gen_io where
  "unreachable_io =
     \<lparr>console = renders_all,
      adapter = \<lparr>PROVIDER_TEXT = None, HF_TOKEN = Some ''hf_token'', GEMINI_API_KEY = None,
                  hf_post = Unreachable, gemini_post = Unreachable, openai_installed = False,
                  openai_chat = None, json_loads = (\<lambda>_. None), randint_draw = 0\<rparr>,
      coin_roll = 1 / 2, coin_choice = 0, NO_IMAGES = True, image_result = Inr ()\<rparr>"

definition offline_turn :: turn where
  "offline_turn = (example_turn ''1'')\<lparr>gen_roll := 0, gen := offline_io\<rparr>"

section \<open>Basic facts\<close>

lemma str_nat_digit: "n < 10 \<Longrightarrow> str_nat n = [digit_char n]"
  by (simp add: str_nat.simps)

lemma renders_all_holds [simp]: "renders_all text"
  by (simp add: renders_all_def)

lemma list_all_top [simp]: "list_all (\<lambda>p. True) xs"
  by (induction xs) simp_all

lemma display_room_renders_all [simp]: "display_room renders_all r c = Inr ()"
  by (simp add: display_room_def)

lemma console_example_turn [simp]: "console (example_turn act) = renders_all"
  by (simp add: example_turn_def)

lemma console_offline_turn [simp]: "console offline_turn = renders_all"
  by (simp add: offline_turn_def example_turn_def)

lemma data_save_data [simp]: "data (save_data s) = data s"
  by (simp add: save_data_def)

lemma rooms_json_save_data [simp]: "rooms_json (save_data s) = Some (data s)"
  by (simp add: save_data_def)

lemma next_id_put_room [simp]: "next_id (data (put_room k r s)) = next_id (data s)"
  by (simp add: put_room_def)

lemma rooms_put_room [simp]: "rooms (data (put_room k r s)) = AList.update k r (rooms (data s))"
  by (simp add: put_room_def)

lemma total_generated_put_room [simp]: "total_generated (data (put_room k r s)) = total_generated (data s)"
  by (simp add: put_room_def)

lemma next_id_set_next_id [simp]: "next_id (data (set_next_id v s)) = v"
  by (simp add: set_next_id_def)

lemma rooms_set_next_id [simp]: "rooms (data (set_next_id v s)) = rooms (data s)"
  by (simp add: set_next_id_def)

lemma total_generated_set_next_id [simp]: "total_generated (data (set_next_id v s)) = total_generated (data s)"
  by (simp add: set_next_id_def)

lemma next_id_set_total_generated [simp]: "next_id (data (set_total_generated v s)) = next_id (data s)"
  by (simp add: set_total_generated_def)

lemma rooms_set_total_generated [simp]: "rooms (data (set_total_generated v s)) = rooms (data s)"
  by (simp add: set_total_generated_def)

lemma total_generated_set_total_generated [simp]:
  "total_generated (data (set_total_generated v s)) = Some v"
  by (simp add: set_total_generated_def)

lemma room_id_generated_room [simp]: "room_id (generated_room io rid j) = rid"
  by (simp add: generated_room_def Let_def)

lemma room_id_computer_room [simp]: "room_id (computer_room rid) = rid"
  by (simp add: computer_room_def)

lemma create_new_room_id:
  assumes "create_new_room io adm s = Inr (r, s')"
  shows "room_id r = next_id (data s) \<and> next_id (data s') = next_id (data s) + 1"
  using assms
  by (auto simp: create_new_room_def Let_def split: if_splits sum.splits parsed.splits)

lemma create_new_room_ai_id:
  assumes "create_new_room_ai io s = Inr (r, s')"
  shows "room_id r = next_id (data s) \<and> next_id (data s') = next_id (data s) + 1"
  using assms
  by (auto simp: create_new_room_ai_def Let_def split: if_splits sum.splits parsed.splits)

lemma create_manual_room_id:
  assumes "create_manual_room mn a img s = Inr (r, s')"
  shows "room_id r = next_id (data s) \<and> next_id (data s') = next_id (data s) + 1"
  using assms
  by (auto simp: create_manual_room_def Let_def split: if_splits sum.splits option.splits prod.splits)

lemma design_room_from_current_id:
  assumes "design_room_from_current a img s cur = Inr (r, s')"
  shows "room_id r = next_id (data s) \<and> next_id (data s') = next_id (data s) + 1"
  using assms
  by (auto simp: design_room_from_current_def Let_def dest!: create_manual_room_id
      split: if_splits sum.splits option.splits prod.splits)

section \<open>Monotonic ids\<close>

lemma create_id:
  assumes "create c s = Inr (r, s')"
  shows "room_id r = next_id (data s) \<and> next_id (data s') = next_id (data s) + 1"
  using assms
  by (cases c)
     (auto simp: create_def dest: create_new_room_id create_new_room_ai_id
        create_manual_room_id design_room_from_current_id)

lemma create_all_bounds:
  "p \<in> set (create_all cs s) \<Longrightarrow>
     next_id (data s) \<le> room_id (fst p) \<and> next_id (data s) < next_id (data (snd p))"
proof (induction cs arbitrary: s)
  case Nil
  then show ?case by simp
next
  case (Cons c cs)
  show ?case
  proof (cases "create c s")
    case (Inl err)
    with Cons.prems show ?thesis by simp
  next
    case (Inr rs)
    obtain r s' where rs: "rs = (r, s')" by (cases rs)
    from Inr rs have ids: "room_id r = next_id (data s)" "next_id (data s') = next_id (data s) + 1"
      using create_id by blast+
    from Cons.prems Inr rs have "p = (r, s') \<or> p \<in> set (create_all cs s')" by simp
    then show ?thesis
    proof
      assume "p = (r, s')"
      with ids show ?thesis by simp
    next
      assume "p \<in> set (create_all cs s')"
      from Cons.IH [OF this] ids show ?thesis by simp
    qed
  qed
qed

lemma assigned_ids_sorted: "sorted_wrt (<) (assigned_ids cs s)"
proof (induction cs arbitrary: s)
  case Nil
  then show ?case by (simp add: assigned_ids_def)
next
  case (Cons c cs)
  show ?case
  proof (cases "create c s")
    case (Inl err)
    then show ?thesis by (simp add: assigned_ids_def)
  next
    case (Inr rs)
    obtain r s' where rs: "rs = (r, s')" by (cases rs)
    from Inr rs have ids: "room_id r = next_id (data s)" "next_id (data s') = next_id (data s) + 1"
      using create_id by blast+
    have "\<forall>p \<in> set (create_all cs s'). room_id r < room_id (fst p)"
      using create_all_bounds [of _ cs s'] ids by fastforce
    with Cons.IH [of s'] Inr rs show ?thesis
      by (simp add: assigned_ids_def)
  qed
qed

lemma next_ids_tail_sorted:
  "sorted_wrt (<) (map (\<lambda>p. next_id (data (snd p))) (create_all cs s))"
proof (induction cs arbitrary: s)
  case Nil
  then show ?case by simp
next
  case (Cons c cs)
  show ?case
  proof (cases "create c s")
    case (Inl err)
    then show ?thesis by simp
  next
    case (Inr rs)
    obtain r s' where rs: "rs = (r, s')" by (cases rs)
    have "\<forall>p \<in> set (create_all cs s'). next_id (data s') < next_id (data (snd p))"
      using create_all_bounds [of _ cs s'] by blast
    with Cons.IH [of s'] Inr rs show ?thesis by simp
  qed
qed

lemma next_ids_sorted: "sorted_wrt (<) (next_ids cs s)"
  using next_ids_tail_sorted [of cs s] create_all_bounds [of _ cs s]
  by (auto simp: next_ids_def)

lemma assigned_ids_butlast: "assigned_ids cs s = butlast (next_ids cs s)"
proof (induction cs arbitrary: s)
  case Nil
  then show ?case by (simp add: assigned_ids_def next_ids_def)
next
  case (Cons c cs)
  show ?case
  proof (cases "create c s")
    case (Inl err)
    then show ?thesis by (simp add: assigned_ids_def next_ids_def)
  next
    case (Inr rs)
    obtain r s' where rs: "rs = (r, s')" by (cases rs)
    from Inr rs have ids: "room_id r = next_id (data s)"
      using create_id by blast
    from Cons.IH [of s'] Inr rs ids show ?thesis
      by (simp add: assigned_ids_def next_ids_def)
  qed
qed

text \<open>
  C3. For any sequence of room-creation calls on any world, whichever of the creation
  functions each call uses (AI, admin, manual, design), the ids assigned to the rooms
  are strictly increasing and without repeats, the values of \<open>next_id\<close> are strictly
  increasing and without repeats, and each room gets the value \<open>next_id\<close> had before
  its call.
\<close>

theorem monotonic_ids:
  "sorted_wrt (<) (assigned_ids cs s) \<and> distinct (assigned_ids cs s)
   \<and> sorted_wrt (<) (next_ids cs s) \<and> distinct (next_ids cs s)
   \<and> assigned_ids cs s = butlast (next_ids cs s)"
  using assigned_ids_sorted [of cs s] next_ids_sorted [of cs s] assigned_ids_butlast [of cs s]
  by (simp add: strict_sorted_iff)

section \<open>What the creation functions do to the world\<close>

lemmas store_defs = put_room_def set_next_id_def set_total_generated_def save_data_def

lemma create_manual_room_effect:
  assumes "create_manual_room mn a img s = Inr (r, s')"
  shows "data s' = (data s)\<lparr>next_id := next_id (data s) + 1,
                          rooms := AList.update (next_id (data s)) r (rooms (data s))\<rparr>
         \<and> rooms_json s' = Some (data s')"
  using assms
  by (auto simp: create_manual_room_def Let_def store_defs
      split: if_splits sum.splits option.splits prod.splits)

lemma create_new_room_ai_effect:
  assumes "create_new_room_ai io s = Inr (r, s')"
  shows "data s' = (data s)\<lparr>next_id := next_id (data s) + 1,
                          total_generated := Some (get_total_generated (data s) + 1),
                          rooms := AList.update (next_id (data s)) r (rooms (data s))\<rparr>
         \<and> rooms_json s' = Some (data s')"
  using assms
  by (auto simp: create_new_room_ai_def Let_def store_defs get_total_generated_def
      split: if_splits sum.splits option.splits prod.splits parsed.splits)

lemma create_new_room_effect:
  assumes "create_new_room io adm s = Inr (r, s')"
  shows "data s' = (data s)\<lparr>next_id := next_id (data s) + 1,
                          total_generated :=
                            (if dict_truthy adm then total_generated (data s)
                             else Some (get_total_generated (data s) + 1)),
                          rooms := AList.update (next_id (data s)) r (rooms (data s))\<rparr>
         \<and> rooms_json s' = Some (data s')"
  using assms
  by (auto simp: create_new_room_def Let_def store_defs get_total_generated_def
      split: if_splits sum.splits option.splits prod.splits parsed.splits)

lemma design_room_from_current_effect:
  assumes "design_room_from_current a img s cur = Inr (r, s')"
  shows "\<exists>cr. map_of (rooms (data s)) cur = Some cr \<and>
           data s' = (data s)\<lparr>next_id := next_id (data s) + 1,
                          rooms := AList.update cur (cr\<lparr>exits := exits cr @ [design_exit a r]\<rparr>)
                                     (AList.update (next_id (data s)) r (rooms (data s)))\<rparr>
         \<and> rooms_json s' = Some (data s')"
  using assms
  by (auto simp: design_room_from_current_def Let_def store_defs design_exit_def
        create_manual_room_def dict_truthy_def
      split: if_splits sum.splits option.splits prod.splits)

lemma fresh_not_key: "ids_fresh w \<Longrightarrow> k \<in> fst ` set (rooms w) \<Longrightarrow> k \<noteq> next_id w"
  by (auto simp: ids_fresh_def)

lemma map_of_key: "map_of al k = Some v \<Longrightarrow> k \<in> fst ` set al"
  by (metis domI dom_map_of_conv_image_fst)

lemma create_manual_room_exits:
  assumes "create_manual_room mn a img s = Inr (r, s')"
  shows "room_id r = next_id (data s) \<and>
         (if dict_truthy mn
          then exits r = (case m_exits (the mn) of None \<Rightarrow> default_exits | Some x \<Rightarrow> x)
          else length (exits r) = 2)"
  using assms
  by (auto simp: create_manual_room_def Let_def
      split: if_splits sum.splits option.splits prod.splits)

lemma design_room_from_current_exits:
  assumes "design_room_from_current a img s cur = Inr (r, s')"
  shows "\<exists>cr. map_of (rooms (data s)) cur = Some cr \<and> room_id r = next_id (data s) \<and>
           exits r = [\<lparr>role = ''link'', label = ''Back to '' @ title cr, target = Some cur\<rparr>,
                      \<lparr>role = ''existing_or_new'', label = ''Right (mysterious)'', target = None\<rparr>]"
  using assms
  by (auto simp: design_room_from_current_def Let_def create_manual_room_def dict_truthy_def
      split: if_splits sum.splits option.splits prod.splits)

lemma design_room_from_current_returns:
  assumes "map_of (rooms (data s)) cur = Some cr" and "ask_coins a = Some c"
    and "\<forall>text. console img text" and "\<forall>err. upload_result img \<noteq> Inl err"
  shows "\<exists>r s'. design_room_from_current a img s cur = Inr (r, s')"
  using assms
  by (auto simp: design_room_from_current_def Let_def create_manual_room_def dict_truthy_def
      split: if_splits sum.splits option.splits prod.splits)



lemma kept_rooms_update:
  assumes "ids_fresh w"
  shows "kept_rooms X w (w\<lparr>next_id := n, rooms := AList.update (next_id w) r (rooms w)\<rparr>)"
    and "kept_rooms X w (w\<lparr>next_id := n, total_generated := tg,
           rooms := AList.update (next_id w) r (rooms w)\<rparr>)"
  using assms by (auto simp: kept_rooms_def update_conv' dest: fresh_not_key)

lemma kept_rooms_design:
  assumes "ids_fresh w"
  shows "kept_rooms {cur} w
           (w\<lparr>next_id := n, rooms := AList.update cur cr (AList.update (next_id w) r (rooms w))\<rparr>)"
  using assms by (auto simp: kept_rooms_def update_conv' dest: fresh_not_key)

lemma run_admin_create_hist_manual:
  assumes "run_admin_create_hist aa a img s = Inr (r, s')"
  shows "\<exists>mn. create_manual_room mn a img s = Inr (r, s')"
  using assms by (auto simp: run_admin_create_hist_def Let_def split: option.splits)

text \<open>
  C10. In a world whose ids in use are below \<open>next_id\<close>: the manual, admin and design
  paths leave \<open>total_generated\<close> as it is; the AI path (\<^verbatim>\<open>create_new_room_ai\<close>, and
  \<^verbatim>\<open>create_new_room\<close> without an admin room) adds exactly 1 to it on every attempt
  that returns; every path leaves every room that existed before unchanged, but for the
  design path, which changes the current room only, by the one exit it appends.
\<close>

theorem creation_frame:
  assumes fresh: "ids_fresh (data s)"
  shows "(create_manual_room mn a img s = Inr (r1, s1) \<longrightarrow>
            total_generated (data s1) = total_generated (data s) \<and> kept_rooms {} (data s) (data s1))
       \<and> (run_admin_create_hist aa a img s = Inr (r2, s2) \<longrightarrow>
            total_generated (data s2) = total_generated (data s) \<and> kept_rooms {} (data s) (data s2))
       \<and> (dict_truthy adm \<and> create_new_room io adm s = Inr (r3, s3) \<longrightarrow>
            total_generated (data s3) = total_generated (data s) \<and> kept_rooms {} (data s) (data s3))
       \<and> (design_room_from_current a img s cur = Inr (r4, s4) \<longrightarrow>
            total_generated (data s4) = total_generated (data s) \<and> kept_rooms {cur} (data s) (data s4)
            \<and> (\<exists>cr. map_of (rooms (data s)) cur = Some cr \<and>
                  map_of (rooms (data s4)) cur =
                    Some (cr\<lparr>exits := exits cr @
                           [\<lparr>role = ''link'', label = ask_label_for_current_exit a,
                             target = Some (room_id r4)\<rparr>]\<rparr>)))
       \<and> (create_new_room_ai io s = Inr (r5, s5) \<longrightarrow>
            get_total_generated (data s5) = get_total_generated (data s) + 1
            \<and> kept_rooms {} (data s) (data s5))
       \<and> (\<not> dict_truthy adm \<and> create_new_room io adm s = Inr (r6, s6) \<longrightarrow>
            get_total_generated (data s6) = get_total_generated (data s) + 1
            \<and> kept_rooms {} (data s) (data s6))"
proof -
  have manual: "total_generated (data s') = total_generated (data s) \<and> kept_rooms {} (data s) (data s')"
    if "create_manual_room m b i s = Inr (r, s')" for m b i r s'
    using create_manual_room_effect [OF that] kept_rooms_update(1) [OF fresh] by simp
  have admin: "total_generated (data s') = total_generated (data s) \<and> kept_rooms {} (data s) (data s')"
    if "run_admin_create_hist aa a img s = Inr (r, s')" for r s'
    using run_admin_create_hist_manual [OF that] manual by blast
  have c3: "total_generated (data s') = total_generated (data s) \<and> kept_rooms {} (data s) (data s')"
    if "dict_truthy adm" "create_new_room io adm s = Inr (r, s')" for r s'
    using create_new_room_effect [OF that(2)] that(1) kept_rooms_update [OF fresh] by simp
  have c6: "get_total_generated (data s') = get_total_generated (data s) + 1
            \<and> kept_rooms {} (data s) (data s')"
    if "\<not> dict_truthy adm" "create_new_room io adm s = Inr (r, s')" for r s'
    using create_new_room_effect [OF that(2)] that(1) kept_rooms_update(2) [OF fresh]
    by (simp add: get_total_generated_def)
  have c5: "get_total_generated (data s') = get_total_generated (data s) + 1
            \<and> kept_rooms {} (data s) (data s')"
    if "create_new_room_ai io s = Inr (r, s')" for r s'
    using create_new_room_ai_effect [OF that] kept_rooms_update(2) [OF fresh]
    by (simp add: get_total_generated_def)
  have c4: "total_generated (data s') = total_generated (data s) \<and> kept_rooms {cur} (data s) (data s')
            \<and> (\<exists>cr. map_of (rooms (data s)) cur = Some cr \<and>
                  map_of (rooms (data s')) cur =
                    Some (cr\<lparr>exits := exits cr @
                           [\<lparr>role = ''link'', label = ask_label_for_current_exit a,
                             target = Some (room_id r)\<rparr>]\<rparr>))"
    if "design_room_from_current a img s cur = Inr (r, s')" for r s'
  proof -
    from design_room_from_current_effect [OF that]
    obtain cr where cr: "map_of (rooms (data s)) cur = Some cr"
      and eff: "data s' = (data s)\<lparr>next_id := next_id (data s) + 1,
                  rooms := AList.update cur (cr\<lparr>exits := exits cr @ [design_exit a r]\<rparr>)
                             (AList.update (next_id (data s)) r (rooms (data s)))\<rparr>"
      by blast
    from eff have "map_of (rooms (data s')) cur = Some (cr\<lparr>exits := exits cr @ [design_exit a r]\<rparr>)"
      by (simp add: update_conv')
    with cr eff kept_rooms_design [OF fresh] show ?thesis
      by (simp add: design_exit_def)
  qed
  from manual admin c3 c4 c5 c6 show ?thesis by blast
qed

subsection \<open>The frame at concrete inputs\<close>

lemmas example_defs = renders_all_def local_env_def example_io_def example_answers_def example_images_def
  example_admin_def example_manual_def cellar_def cellar_state_def cellar_world_def load_data_def
  default_world_def first_chamber_def

lemma manual_example_returns: "\<exists>r s'. create_manual_room None example_answers example_images (load_data None) = Inr (r, s')"
  by (simp add: create_manual_room_def example_defs Let_def dict_truthy_def configure_exit_def)

lemma admin_example_returns: "\<exists>r s'. run_admin_create_hist example_admin example_answers example_images (load_data None) = Inr (r, s')"
  by (simp add: run_admin_create_hist_def create_manual_room_def example_defs Let_def dict_truthy_def)

lemma admin_room_example_returns: "\<exists>r s'. create_new_room example_io (Some example_manual) (load_data None) = Inr (r, s')"
  by (simp add: create_new_room_def example_defs Let_def dict_truthy_def)

lemma design_example_returns: "\<exists>r s'. design_room_from_current example_answers example_images (load_data None) 0 = Inr (r, s')"
  by (simp add: design_room_from_current_def create_manual_room_def example_defs Let_def dict_truthy_def)

lemma ai_example_returns: "\<exists>r s'. create_new_room_ai example_io (load_data None) = Inr (r, s')"
  by (simp add: create_new_room_ai_def generate_room_text_def local_json_def example_defs Let_def
      store_defs get_total_generated_def image_failure_raises_def)

lemma new_room_example_returns: "\<exists>r s'. create_new_room example_io None (load_data None) = Inr (r, s')"
  by (simp add: create_new_room_def generate_room_text_def local_json_def example_defs Let_def
      store_defs get_total_generated_def dict_truthy_def image_failure_raises_def)

lemma default_world_fresh: "ids_fresh (data (load_data None))"
  by (simp add: ids_fresh_def example_defs)

lemma kept_roomsD:
  "kept_rooms X w w' \<Longrightarrow> k \<in> fst ` set (rooms w) \<Longrightarrow> k \<notin> X \<Longrightarrow>
     map_of (rooms w') k = map_of (rooms w) k"
  by (simp add: kept_rooms_def)

theorem creation_frame_witness:
  "ids_fresh (data (load_data None))
   \<and> (\<exists>r s'. create_manual_room None example_answers example_images (load_data None) = Inr (r, s')
         \<and> total_generated (data s') = Some 0 \<and> map_of (rooms (data s')) 0 = Some first_chamber)
   \<and> (\<exists>r s'. run_admin_create_hist example_admin example_answers example_images (load_data None) = Inr (r, s')
         \<and> total_generated (data s') = Some 0 \<and> map_of (rooms (data s')) 0 = Some first_chamber)
   \<and> (\<exists>r s'. create_new_room example_io (Some example_manual) (load_data None) = Inr (r, s')
         \<and> total_generated (data s') = Some 0 \<and> map_of (rooms (data s')) 0 = Some first_chamber)
   \<and> (\<exists>r s'. design_room_from_current example_answers example_images (load_data None) 0 = Inr (r, s')
         \<and> total_generated (data s') = Some 0
         \<and> map_of (rooms (data s')) 0 =
             Some (first_chamber\<lparr>exits := exits first_chamber @
                    [\<lparr>role = ''link'', label = ''Trapdoor'', target = Some (room_id r)\<rparr>]\<rparr>))
   \<and> (\<exists>r s'. create_new_room_ai example_io (load_data None) = Inr (r, s')
         \<and> get_total_generated (data s') = 1 \<and> map_of (rooms (data s')) 0 = Some first_chamber)
   \<and> (\<exists>r s'. create_new_room example_io None (load_data None) = Inr (r, s')
         \<and> get_total_generated (data s') = 1 \<and> map_of (rooms (data s')) 0 = Some first_chamber)"
proof -
  let ?s = "load_data None"
  have fresh: "ids_fresh (data ?s)"
    by (simp add: ids_fresh_def example_defs)
  have start: "map_of (rooms (data ?s)) 0 = Some first_chamber" "total_generated (data ?s) = Some 0"
    "get_total_generated (data ?s) = 0" "0 \<in> fst ` set (rooms (data ?s))"
    "ask_label_for_current_exit example_answers = ''Trapdoor''"
    by (simp_all add: example_defs get_total_generated_def)
  have truthy: "dict_truthy (Some example_manual)" "\<not> dict_truthy None"
    by (simp_all add: dict_truthy_def example_manual_def)
  obtain r1 s1 where c1: "create_manual_room None example_answers example_images ?s = Inr (r1, s1)"
    using manual_example_returns by blast
  obtain r2 s2 where c2: "run_admin_create_hist example_admin example_answers example_images ?s = Inr (r2, s2)"
    using admin_example_returns by blast
  obtain r3 s3 where c3: "create_new_room example_io (Some example_manual) ?s = Inr (r3, s3)"
    using admin_room_example_returns by blast
  obtain r4 s4 where c4: "design_room_from_current example_answers example_images ?s 0 = Inr (r4, s4)"
    using design_example_returns by blast
  obtain r5 s5 where c5: "create_new_room_ai example_io ?s = Inr (r5, s5)"
    using ai_example_returns by blast
  obtain r6 s6 where c6: "create_new_room example_io None ?s = Inr (r6, s6)"
    using new_room_example_returns by blast
  note frame = creation_frame [OF fresh, of None example_answers example_images r1 s1
      example_admin r2 s2 "Some example_manual" example_io r3 s3 0 r4 s4 r5 s5 r6 s6]
  note frame' = creation_frame [OF fresh, of None example_answers example_images r1 s1
      example_admin r2 s2 None example_io r3 s3 0 r4 s4 r5 s5 r6 s6]
  have k1: "total_generated (data s1) = total_generated (data ?s)" "kept_rooms {} (data ?s) (data s1)"
    using frame c1 by blast+
  have k2: "total_generated (data s2) = total_generated (data ?s)" "kept_rooms {} (data ?s) (data s2)"
    using frame c2 by blast+
  have k3: "total_generated (data s3) = total_generated (data ?s)" "kept_rooms {} (data ?s) (data s3)"
    using frame c3 truthy(1) by blast+
  have k4: "total_generated (data s4) = total_generated (data ?s)"
    "\<exists>cr. map_of (rooms (data ?s)) 0 = Some cr \<and>
        map_of (rooms (data s4)) 0 =
          Some (cr\<lparr>exits := exits cr @
                 [\<lparr>role = ''link'', label = ask_label_for_current_exit example_answers,
                   target = Some (room_id r4)\<rparr>]\<rparr>)"
    using frame c4 by blast+
  have k5: "get_total_generated (data s5) = get_total_generated (data ?s) + 1"
    "kept_rooms {} (data ?s) (data s5)"
    using frame c5 by blast+
  have k6: "get_total_generated (data s6) = get_total_generated (data ?s) + 1"
    "kept_rooms {} (data ?s) (data s6)"
    using frame' c6 truthy(2) by blast+
  have "total_generated (data s1) = Some 0 \<and> map_of (rooms (data s1)) 0 = Some first_chamber"
    using k1(1) kept_roomsD [OF k1(2) start(4)] start by simp
  moreover have "total_generated (data s2) = Some 0 \<and> map_of (rooms (data s2)) 0 = Some first_chamber"
    using k2(1) kept_roomsD [OF k2(2) start(4)] start by simp
  moreover have "total_generated (data s3) = Some 0 \<and> map_of (rooms (data s3)) 0 = Some first_chamber"
    using k3(1) kept_roomsD [OF k3(2) start(4)] start by simp
  moreover have "total_generated (data s4) = Some 0 \<and> map_of (rooms (data s4)) 0 =
             Some (first_chamber\<lparr>exits := exits first_chamber @
                    [\<lparr>role = ''link'', label = ''Trapdoor'', target = Some (room_id r4)\<rparr>]\<rparr>)"
    using k4 start by auto
  moreover have "get_total_generated (data s5) = 1 \<and> map_of (rooms (data s5)) 0 = Some first_chamber"
    using k5(1) kept_roomsD [OF k5(2) start(4)] start by simp
  moreover have "get_total_generated (data s6) = 1 \<and> map_of (rooms (data s6)) 0 = Some first_chamber"
    using k6(1) kept_roomsD [OF k6(2) start(4)] start by simp
  ultimately show ?thesis
    using fresh c1 c2 c3 c4 c5 c6 by blast
qed


text \<open>
  The design operation does not return for every room with one exit. In the cellar,
  with the title \<^verbatim>\<open>[/INST]\<close> typed at the prompt, \<^verbatim>\<open>create_manual_room\<close> saves the
  new room and then prints its title through rich, which raises \<^verbatim>\<open>MarkupError\<close>:
  the design ends there, and the cellar never gets its link to the new room.
\<close>

theorem design_links_both_rooms_counterexample:
  "map_of (rooms (data cellar_state)) 0 = Some cellar
   \<and> length (exits cellar) = 1
   \<and> ids_fresh (data cellar_state)
   \<and> ask_title inst_answers = ''[/INST]''
   \<and> ask_coins inst_answers = Some 2
   \<and> \<not> console inst_images ''[green]Created manual room 1: [/INST][/green]''
   \<and> design_room_from_current inst_answers inst_images cellar_state 0 = Inl MarkupError"
  by (simp add: design_room_from_current_def create_manual_room_def dict_truthy_def Let_def
      inst_answers_def inst_images_def cellar_state_def cellar_world_def cellar_def ids_fresh_def
      store_defs str_def str_nat.simps digit_char_def)

text \<open>Four creations in a row from the default world, one on each path.\<close>

lemma assigned_ids_example:
  "assigned_ids
     [ByCreateNewRoomAI example_io, ByCreateManualRoom None example_answers example_images,
      ByCreateNewRoom example_io (Some example_manual),
      ByDesign example_answers example_images 0]
     (load_data None) = [1, 2, 3, 4]"
proof -
  let ?s = "load_data None"
  obtain r1 s1 where c1: "create (ByCreateNewRoomAI example_io) ?s = Inr (r1, s1)"
    using ai_example_returns by (auto simp: create_def)
  from create_id [OF c1] have n1: "room_id r1 = 1" "next_id (data s1) = 2"
    by (simp_all add: load_data_def default_world_def)
  obtain r2 s2 where c2:
    "create (ByCreateManualRoom None example_answers example_images) s1 = Inr (r2, s2)"
    by (cases "create_manual_room None example_answers example_images s1")
       (auto simp: create_def create_manual_room_def example_answers_def dict_truthy_def
          configure_exit_def Let_def example_images_def renders_all_def)
  from create_id [OF c2] n1 have n2: "room_id r2 = 2" "next_id (data s2) = 3" by simp_all
  obtain r3 s3 where c3:
    "create (ByCreateNewRoom example_io (Some example_manual)) s2 = Inr (r3, s3)"
    by (cases "create_new_room example_io (Some example_manual) s2")
       (auto simp: create_def create_new_room_def example_manual_def dict_truthy_def Let_def)
  from create_id [OF c3] n2 have n3: "room_id r3 = 3" "next_id (data s3) = 4" by simp_all
  have "map_of (rooms (data ?s)) 0 = Some first_chamber"
    by (simp add: load_data_def default_world_def)
  with create_new_room_ai_effect [of example_io ?s r1 s1] c1
  have "map_of (rooms (data s1)) 0 = Some first_chamber"
    by (simp add: create_def update_conv' load_data_def default_world_def)
  with create_manual_room_effect [of None example_answers example_images s1 r2 s2] c2 n1
  have "map_of (rooms (data s2)) 0 = Some first_chamber"
    by (simp add: create_def update_conv')
  with create_new_room_effect [of example_io "Some example_manual" s2 r3 s3] c3 n2
  have "map_of (rooms (data s3)) 0 = Some first_chamber"
    by (simp add: create_def update_conv')
  from design_room_from_current_returns [OF this, of example_answers 2 example_images]
  obtain r4 s4 where c4: "create (ByDesign example_answers example_images 0) s3 = Inr (r4, s4)"
    by (auto simp: create_def example_answers_def example_images_def renders_all_def)
  from create_id [OF c4] n3 have n4: "room_id r4 = 4" by simp
  from c1 c2 c3 c4 n1 n2 n3 n4 show ?thesis
    by (simp add: assigned_ids_def)
qed

section \<open>Exit-count invariant\<close>

lemma set_update_subset: "set (AList.update k v al) \<subseteq> insert (k, v) (set al)"
  by (induction al) auto

lemma exits_ok_update:
  assumes "exits_ok w" and "rooms w' = AList.update k r (rooms w)"
    and "length (exits r) = 1 \<or> length (exits r) = 2"
  shows "exits_ok w'"
  using assms set_update_subset [of k r "rooms w"]
  by (fastforce simp: exits_ok_def)

lemma exits_ok_lookup:
  "exits_ok w \<Longrightarrow> map_of (rooms w) k = Some r \<Longrightarrow> length (exits r) = 1 \<or> length (exits r) = 2"
  by (auto simp: exits_ok_def dest!: map_of_SomeD)

lemma state_exits_okI:
  "exits_ok (data s) \<Longrightarrow> rooms_json s = Some (data s) \<Longrightarrow> state_exits_ok s"
  by (simp add: state_exits_ok_def)

lemma create_new_room_ai_exits:
  assumes "create_new_room_ai io s = Inr (r, s')"
  shows "length (exits r) = 2"
  using assms
  by (auto simp: create_new_room_ai_def Let_def computer_room_def generated_room_def
      split: if_splits sum.splits parsed.splits)

lemma create_new_room_ai_ok:
  assumes "create_new_room_ai io s = Inr (r, s')" and "state_exits_ok s"
  shows "state_exits_ok s'"
proof -
  from create_new_room_ai_effect [OF assms(1)]
  have "rooms (data s') = AList.update (next_id (data s)) r (rooms (data s))"
    and saved: "rooms_json s' = Some (data s')" by simp_all
  with assms(2) create_new_room_ai_exits [OF assms(1)] have "exits_ok (data s')"
    by (auto simp: state_exits_ok_def intro: exits_ok_update)
  with saved show ?thesis by (simp add: state_exits_ok_def)
qed

lemma create_manual_room_ok:
  assumes "create_manual_room mn a img s = Inr (r, s')" and "state_exits_ok s"
    and "dict_truthy mn \<Longrightarrow> \<exists>x. m_exits (the mn) = Some x \<and> length x = 2"
  shows "state_exits_ok s'"
proof -
  from create_manual_room_exits [OF assms(1)] assms(3)
  have len: "length (exits r) = 2" by (auto split: if_splits)
  from create_manual_room_effect [OF assms(1)]
  have "rooms (data s') = AList.update (next_id (data s)) r (rooms (data s))"
    and saved: "rooms_json s' = Some (data s')" by simp_all
  with assms(2) len have "exits_ok (data s')"
    by (auto simp: state_exits_ok_def intro: exits_ok_update)
  with saved show ?thesis by (simp add: state_exits_ok_def)
qed

lemma run_admin_create_hist_ok:
  assumes "run_admin_create_hist aa a img s = Inr (r, s')" and "state_exits_ok s"
  shows "state_exits_ok s'"
  using assms
  by (auto simp: run_admin_create_hist_def Let_def dict_truthy_def split: option.splits
      elim!: create_manual_room_ok)

lemma design_room_from_current_ok:
  assumes res: "design_room_from_current a img s cur = Inr (r, s')" and ok: "state_exits_ok s"
    and one: "\<And>cr. map_of (rooms (data s)) cur = Some cr \<Longrightarrow> length (exits cr) = 1"
  shows "state_exits_ok s'"
proof -
  from design_room_from_current_effect [OF res]
  obtain cr where cr: "map_of (rooms (data s)) cur = Some cr"
    and eff: "data s' = (data s)\<lparr>next_id := next_id (data s) + 1,
                rooms := AList.update cur (cr\<lparr>exits := exits cr @ [design_exit a r]\<rparr>)
                           (AList.update (next_id (data s)) r (rooms (data s)))\<rparr>"
    and saved: "rooms_json s' = Some (data s')"
    by blast
  from design_room_from_current_exits [OF res] have len: "length (exits r) = 2" by auto
  define w1 where "w1 = (data s)\<lparr>rooms := AList.update (next_id (data s)) r (rooms (data s))\<rparr>"
  from ok len have ok1: "exits_ok w1"
    by (auto simp: state_exits_ok_def w1_def intro: exits_ok_update)
  from eff have "rooms (data s') =
      AList.update cur (cr\<lparr>exits := exits cr @ [design_exit a r]\<rparr>) (rooms w1)"
    by (simp add: w1_def)
  moreover from one [OF cr] have "length (exits (cr\<lparr>exits := exits cr @ [design_exit a r]\<rparr>)) = 2"
    by simp
  ultimately have "exits_ok (data s')"
    using ok1 by (auto intro: exits_ok_update)
  with saved show ?thesis by (simp add: state_exits_ok_def)
qed

lemma link_exits_interactive_ok:
  assumes "link_exits_interactive con rid ex_i tgt s = Inr s'" and "state_exits_ok s"
  shows "state_exits_ok s'"
proof (cases "s' = s")
  case True
  with assms show ?thesis by simp
next
  case False
  with assms(1) obtain k r e where r: "map_of (rooms (data s)) k = Some r"
    and s': "s' = save_data (put_room k (r\<lparr>exits := (exits r)[exit_index ex_i := e]\<rparr>) s)"
    by (auto simp: link_exits_interactive_def Let_def split: option.splits if_splits)
  from assms(2) r have "length (exits r) = 1 \<or> length (exits r) = 2"
    by (auto simp: state_exits_ok_def dest: exits_ok_lookup)
  then have "length (exits (r\<lparr>exits := (exits r)[exit_index ex_i := e]\<rparr>)) = 1
      \<or> length (exits (r\<lparr>exits := (exits r)[exit_index ex_i := e]\<rparr>)) = 2"
    by simp
  with assms(2) have "exits_ok (data s')"
    unfolding s' by (auto simp: state_exits_ok_def intro: exits_ok_update)
  then show ?thesis
    unfolding s' by (auto intro: state_exits_okI)
qed

lemma editor_choice_ok:
  assumes "editor_choice con c s = Inr s'" and "state_exits_ok s"
  shows "state_exits_ok s'"
  using assms
  by (cases c)
     (auto simp: editor_choice_def dict_truthy_def split: sum.splits option.splits
        elim: create_manual_room_ok link_exits_interactive_ok)

lemma editor_menu_ok:
  "editor_menu con cs s = Inr s' \<Longrightarrow> state_exits_ok s \<Longrightarrow> state_exits_ok s'"
proof (induction cs arbitrary: s)
  case Nil
  then show ?case by simp
next
  case (Cons c cs)
  then show ?case
    by (auto split: sum.splits dest: editor_choice_ok)
qed

lemma pickup_coins_ok:
  assumes "pickup_coins g = Inr (r, g')" and "state_exits_ok (st g)"
  shows "state_exits_ok (st g') \<and> current_id g' = current_id g
         \<and> (\<exists>r0. map_of (rooms (data (st g))) (current_id g) = Some r0 \<and> exits r = exits r0)
         \<and> map_of (rooms (data (st g'))) (current_id g) = Some r"
proof -
  from assms(1) obtain r0 where r0: "map_of (rooms (data (st g))) (current_id g) = Some r0"
    by (auto simp: pickup_coins_def split: option.splits)
  show ?thesis
  proof (cases "coins r0 > 0")
    case False
    with assms r0 show ?thesis by (auto simp: pickup_coins_def)
  next
    case True
    with assms(1) r0 have r: "r = r0\<lparr>coins := 0\<rparr>"
      and g': "g' = g\<lparr>player_coins := player_coins g + coins r0,
                       st := save_data (put_room (current_id g) r (st g))\<rparr>"
      by (auto simp: pickup_coins_def Let_def)
    from assms(2) r0 have "length (exits r) = 1 \<or> length (exits r) = 2"
      by (auto simp: r state_exits_ok_def dest: exits_ok_lookup)
    with assms(2) have "exits_ok (data (st g'))"
      unfolding g' by (auto simp: state_exits_ok_def intro: exits_ok_update)
    then have "state_exits_ok (st g')"
      unfolding g' by (auto intro: state_exits_okI)
    with r0 r g' show ?thesis by (simp add: update_conv')
  qed
qed

lemma resolve_exit_ok:
  assumes "resolve_exit t r chosen g = Continue g'" and "state_exits_ok (st g)"
  shows "state_exits_ok (st g')"
  using assms
  by (fastforce simp: resolve_exit_def Let_def split: option.splits if_splits sum.splits
      dest: create_new_room_ai_ok)

lemma admin_command_ok:
  assumes "admin_command cfg t r g = Continue g'" and "state_exits_ok (st g)"
  shows "state_exits_ok (st g')"
  using assms
  by (auto simp: admin_command_def Let_def split: option.splits if_splits sum.splits
      dest: run_admin_create_hist_ok)

lemma play_game_loop_step_ok:
  assumes step: "play_game_loop_step cfg t g = Continue g'" and ok: "state_exits_ok (st g)"
  shows "state_exits_ok (st g')"
proof -
  from step obtain r g1 where pick: "pickup_coins g = Inr (r, g1)"
    by (auto simp: play_game_loop_step_def split: sum.splits)
  from pickup_coins_ok [OF pick ok]
  have ok1: "state_exits_ok (st g1)" and cur: "current_id g1 = current_id g"
    and here: "map_of (rooms (data (st g1))) (current_id g1) = Some r"
    by auto
  have design: "state_exits_ok s'"
    if "length (exits r) = Suc 0"
      "design_room_from_current (typed t) (images t) (st g1) (current_id g1) = Inr (nr, s')"
    for nr s'
    using design_room_from_current_ok [OF that(2) ok1] here that(1) by simp
  from step pick ok1 show ?thesis
    by (auto simp: play_game_loop_step_def Let_def
        split: if_splits sum.splits option.splits
        dest: editor_menu_ok design admin_command_ok resolve_exit_ok)
qed

lemma load_data_ok:
  assumes "case f of None \<Rightarrow> True | Some w \<Rightarrow> exits_ok w"
  shows "state_exits_ok (load_data f)"
  using assms
  by (auto simp: load_data_def state_exits_ok_def exits_ok_def default_world_def first_chamber_def
      split: option.splits)

lemma reachable_ok:
  assumes "reachable cfg f g" and "case f of None \<Rightarrow> True | Some w \<Rightarrow> exits_ok w"
  shows "state_exits_ok (st g)"
  using assms
proof (induction rule: reachable.induct)
  case reach_init
  then show ?case by (simp add: initial_game_def Let_def load_data_ok)
next
  case (reach_step g t g')
  then show ?case by (auto dest: play_game_loop_step_ok)
qed

lemma lower_design: "lower ''Design'' = ''design''"
  by (simp add: lower_def lower_char_def)

lemma design_round_example:
  "\<exists>g'. play_game_loop_step example_config (example_turn ''Design'') (initial_game (Some cellar_world)) = Continue g'
     \<and> current_id g' = 1"
  by (simp add: play_game_loop_step_def pickup_coins_def initial_game_def load_data_def Let_def
      example_turn_def cellar_world_def cellar_def lower_def lower_char_def startswith_def
      design_room_from_current_def create_manual_room_def dict_truthy_def example_answers_def
      example_images_def renders_all_def display_room_def exit_line_hist_def store_defs)

text \<open>
  C2. Started from the default world (\<open>f = None\<close>), or from a stored world whose rooms
  all have 1 or 2 exits, every state the play loop reaches, through any rounds of AI,
  admin, editor and design room creation, coin pickup and exit edits, has only rooms
  with exactly 1 or 2 exits, in memory and in the file. And the design operation, run
  on a current room with exactly one exit, leaves that room with exactly 2 exits.
\<close>

theorem exit_count_invariant:
  assumes "case f of None \<Rightarrow> True | Some w \<Rightarrow> exits_ok w"
  shows "(reachable cfg f g \<longrightarrow>
            exits_ok (data (st g)) \<and> (\<forall>w. rooms_json (st g) = Some w \<longrightarrow> exits_ok w))
       \<and> (map_of (rooms (data s)) cur = Some cr \<and> length (exits cr) = 1
            \<and> design_room_from_current a img s cur = Inr (r, s') \<longrightarrow>
          (\<exists>cr'. map_of (rooms (data s')) cur = Some cr' \<and> length (exits cr') = 2))"
proof -
  have "exits_ok (data (st g)) \<and> (\<forall>w. rooms_json (st g) = Some w \<longrightarrow> exits_ok w)"
    if "reachable cfg f g"
    using reachable_ok [OF that assms] by (auto simp: state_exits_ok_def)
  moreover have "\<exists>cr'. map_of (rooms (data s')) cur = Some cr' \<and> length (exits cr') = 2"
    if cr: "map_of (rooms (data s)) cur = Some cr" and one: "length (exits cr) = 1"
      and res: "design_room_from_current a img s cur = Inr (r, s')"
  proof -
    from design_room_from_current_effect [OF res] cr
    have "map_of (rooms (data s')) cur = Some (cr\<lparr>exits := exits cr @ [design_exit a r]\<rparr>)"
      by (auto simp: update_conv')
    with one show ?thesis by simp
  qed
  ultimately show ?thesis by blast
qed

theorem exit_count_invariant_witness:
  "exits_ok cellar_world
   \<and> (\<exists>g'. play_game_loop_step example_config (example_turn ''Design'')
               (initial_game (Some cellar_world)) = Continue g'
         \<and> reachable example_config (Some cellar_world) g'
         \<and> current_id g' = 1
         \<and> exits_ok (data (st g')))
   \<and> (\<exists>r s' cr'.
           design_room_from_current example_answers example_images cellar_state 0 = Inr (r, s')
         \<and> map_of (rooms (data s')) 0 = Some cr' \<and> length (exits cr') = 2)"
proof -
  have ok: "exits_ok cellar_world"
    by (simp add: exits_ok_def cellar_world_def cellar_def)
  then have h: "case Some cellar_world of None \<Rightarrow> True | Some w \<Rightarrow> exits_ok w"
    by simp
  obtain g' where step: "play_game_loop_step example_config (example_turn ''Design'')
      (initial_game (Some cellar_world)) = Continue g'" and cur: "current_id g' = 1"
    using design_round_example by blast
  have reach: "reachable example_config (Some cellar_world) g'"
    using reach_step [OF reach_init step] .
  have cr: "map_of (rooms (data cellar_state)) 0 = Some cellar" "length (exits cellar) = 1"
    "ask_coins example_answers = Some 2"
    by (simp_all add: cellar_state_def cellar_world_def cellar_def example_answers_def)
  have "\<forall>text. console example_images text" "\<forall>err. upload_result example_images \<noteq> Inl err"
    by (simp_all add: example_images_def renders_all_def)
  from design_room_from_current_returns [OF cr(1) cr(3) this]
  obtain r s' where des:
    "design_room_from_current example_answers example_images cellar_state 0 = Inr (r, s')"
    by blast
  note inv = exit_count_invariant [OF h, of example_config g' cellar_state 0 cellar
      example_answers example_images r s']
  from inv reach have "exits_ok (data (st g'))" by blast
  moreover from inv cr des
  have "\<exists>cr'. map_of (rooms (data s')) 0 = Some cr' \<and> length (exits cr') = 2" by blast
  ultimately show ?thesis
    using ok step reach cur des by blast
qed

section \<open>Coins once spent, ids fresh\<close>

lemma spent_ok_new:
  assumes "spent_ok K w" and "rooms w' = AList.update (next_id w) r (rooms w)"
    and "next_id w' = next_id w + 1"
  shows "spent_ok K w'"
proof -
  from assms(1) have fresh: "ids_fresh w" by (simp add: spent_ok_def)
  have "ids_fresh w'"
    using fresh assms(2,3) by (auto simp: ids_fresh_def dom_update)
  moreover have "\<exists>r'. map_of (rooms w') k = Some r' \<and> coins r' \<le> 0" if "k \<in> K" for k
  proof -
    from assms(1) that obtain r0 where r0: "map_of (rooms w) k = Some r0" "coins r0 \<le> 0"
      by (auto simp: spent_ok_def)
    from r0(1) fresh have "k \<noteq> next_id w"
      using fresh_not_key map_of_key by metis
    with r0 assms(2) show ?thesis by (simp add: update_conv')
  qed
  ultimately show ?thesis by (simp add: spent_ok_def)
qed

lemma spent_ok_change:
  assumes "spent_ok K w" and "rooms w' = AList.update k0 r' (rooms w)"
    and "map_of (rooms w) k0 = Some r0" and "coins r' = coins r0 \<or> coins r' \<le> 0"
    and "next_id w \<le> next_id w'"
  shows "spent_ok K w'"
proof -
  from assms(3) have "k0 \<in> fst ` set (rooms w)" by (rule map_of_key)
  then have "fst ` set (rooms w') = fst ` set (rooms w)"
    using assms(2) by (auto simp: dom_update)
  with assms(1,5) have "ids_fresh w'"
    by (fastforce simp: spent_ok_def ids_fresh_def)
  moreover have "\<exists>r. map_of (rooms w') k = Some r \<and> coins r \<le> 0" if "k \<in> K" for k
    using assms(1-4) that by (cases "k = k0") (auto simp: spent_ok_def update_conv')
  ultimately show ?thesis by (simp add: spent_ok_def)
qed

lemma create_new_room_ai_spent:
  assumes "create_new_room_ai io s = Inr (r, s')" and "spent_ok K (data s)"
  shows "spent_ok K (data s')"
  using create_new_room_ai_effect [OF assms(1)] assms(2)
  by (auto intro!: spent_ok_new [of K "data s"])

lemma create_manual_room_spent:
  assumes "create_manual_room mn a img s = Inr (r, s')" and "spent_ok K (data s)"
  shows "spent_ok K (data s')"
  using create_manual_room_effect [OF assms(1)] assms(2)
  by (auto intro!: spent_ok_new [of K "data s"])

lemma run_admin_create_hist_spent:
  assumes "run_admin_create_hist aa a img s = Inr (r, s')" and "spent_ok K (data s)"
  shows "spent_ok K (data s')"
  using run_admin_create_hist_manual [OF assms(1)] assms(2) create_manual_room_spent by blast

lemma design_room_from_current_spent:
  assumes res: "design_room_from_current a img s cur = Inr (r, s')" and ok: "spent_ok K (data s)"
  shows "spent_ok K (data s')"
proof -
  from design_room_from_current_effect [OF res]
  obtain cr where cr: "map_of (rooms (data s)) cur = Some cr"
    and eff: "data s' = (data s)\<lparr>next_id := next_id (data s) + 1,
                rooms := AList.update cur (cr\<lparr>exits := exits cr @ [design_exit a r]\<rparr>)
                           (AList.update (next_id (data s)) r (rooms (data s)))\<rparr>"
    by blast
  define w1 where "w1 = (data s)\<lparr>next_id := next_id (data s) + 1,
      rooms := AList.update (next_id (data s)) r (rooms (data s))\<rparr>"
  have ok1: "spent_ok K w1"
    using ok by (auto simp: w1_def intro!: spent_ok_new [of K "data s"])
  from ok cr have "cur \<noteq> next_id (data s)"
    using fresh_not_key map_of_key by (metis spent_ok_def)
  with cr have cr1: "map_of (rooms w1) cur = Some cr"
    by (simp add: w1_def update_conv')
  from eff have "rooms (data s') =
      AList.update cur (cr\<lparr>exits := exits cr @ [design_exit a r]\<rparr>) (rooms w1)"
    and "next_id w1 \<le> next_id (data s')"
    by (simp_all add: w1_def)
  then show ?thesis
    using ok1 cr1 by (auto intro!: spent_ok_change [of K w1])
qed

lemma link_exits_interactive_spent:
  assumes "link_exits_interactive con rid ex_i tgt s = Inr s'" and "spent_ok K (data s)"
  shows "spent_ok K (data s')"
proof (cases "s' = s")
  case True
  with assms show ?thesis by simp
next
  case False
  with assms(1) obtain k r e where r: "map_of (rooms (data s)) k = Some r"
    and s': "s' = save_data (put_room k (r\<lparr>exits := (exits r)[exit_index ex_i := e]\<rparr>) s)"
    by (auto simp: link_exits_interactive_def Let_def split: option.splits if_splits)
  show ?thesis
    unfolding s' using assms(2) r
    by (auto intro!: spent_ok_change [of K "data s"])
qed

lemma editor_choice_spent:
  assumes "editor_choice con c s = Inr s'" and "spent_ok K (data s)"
  shows "spent_ok K (data s')"
  using assms
  by (cases c)
     (auto simp: editor_choice_def split: sum.splits option.splits
        elim: create_manual_room_spent link_exits_interactive_spent)

lemma editor_menu_spent:
  "editor_menu con cs s = Inr s' \<Longrightarrow> spent_ok K (data s) \<Longrightarrow> spent_ok K (data s')"
proof (induction cs arbitrary: s)
  case Nil
  then show ?case by simp
next
  case (Cons c cs)
  then show ?case
    by (auto split: sum.splits dest: editor_choice_spent)
qed

lemma pickup_coins_spent:
  assumes "pickup_coins g = Inr (r, g')" and "spent_ok K (data (st g))"
  shows "spent_ok (insert (current_id g) K) (data (st g'))"
proof -
  from assms(1) obtain r0 where r0: "map_of (rooms (data (st g))) (current_id g) = Some r0"
    by (auto simp: pickup_coins_def split: option.splits)
  show ?thesis
  proof (cases "coins r0 > 0")
    case False
    with assms r0 show ?thesis by (auto simp: pickup_coins_def spent_ok_def)
  next
    case True
    with assms(1) r0 have r: "r = r0\<lparr>coins := 0\<rparr>"
      and g': "g' = g\<lparr>player_coins := player_coins g + coins r0,
                       st := save_data (put_room (current_id g) r (st g))\<rparr>"
      by (auto simp: pickup_coins_def Let_def)
    have "spent_ok K (data (st g'))"
      unfolding g' using assms(2) r0 r
      by (auto intro!: spent_ok_change [of K "data (st g)"])
    moreover have "map_of (rooms (data (st g'))) (current_id g) = Some r"
      unfolding g' by (simp add: update_conv')
    ultimately show ?thesis
      using r by (auto simp: spent_ok_def)
  qed
qed

lemma spent_ok_mono: "spent_ok K w \<Longrightarrow> K' \<subseteq> K \<Longrightarrow> spent_ok K' w"
  by (auto simp: spent_ok_def)

lemma resolve_exit_spent:
  assumes "resolve_exit t r chosen g = Continue g'" and "spent_ok K (data (st g))"
  shows "spent_ok K (data (st g'))"
  using assms
  by (fastforce simp: resolve_exit_def Let_def split: option.splits if_splits sum.splits
      dest: create_new_room_ai_spent)

lemma admin_command_spent:
  assumes "admin_command cfg t r g = Continue g'" and "spent_ok K (data (st g))"
  shows "spent_ok K (data (st g'))"
  using assms
  by (auto simp: admin_command_def Let_def split: option.splits if_splits sum.splits
      dest: run_admin_create_hist_spent)

lemma play_game_loop_step_spent:
  assumes step: "play_game_loop_step cfg t g = Continue g'" and ok: "spent_ok K (data (st g))"
  shows "spent_ok K (data (st g'))"
proof -
  from step obtain r g1 where pick: "pickup_coins g = Inr (r, g1)"
    by (auto simp: play_game_loop_step_def split: sum.splits)
  from pickup_coins_spent [OF pick ok] have ok1: "spent_ok K (data (st g1))"
    by (rule spent_ok_mono) auto
  from step pick ok1 show ?thesis
    by (auto simp: play_game_loop_step_def Let_def
        split: if_splits sum.splits option.splits
        dest: editor_menu_spent design_room_from_current_spent admin_command_spent
          resolve_exit_spent)
qed

lemma later_spent:
  assumes "later cfg g g'" and "spent_ok K (data (st g))"
  shows "spent_ok K (data (st g'))"
  using assms
  by (induction rule: later.induct) (auto dest: play_game_loop_step_spent)

lemma reachable_fresh:
  assumes "reachable cfg f g" and "case f of None \<Rightarrow> True | Some w \<Rightarrow> ids_fresh w"
  shows "ids_fresh (data (st g))"
proof -
  have "spent_ok {} (data (st g))"
    using assms
  proof (induction rule: reachable.induct)
    case reach_init
    then show ?case
      by (auto simp: initial_game_def Let_def load_data_def spent_ok_def ids_fresh_def
          default_world_def split: option.splits)
  next
    case (reach_step g t g')
    then show ?case by (auto dest: play_game_loop_step_spent)
  qed
  then show ?thesis by (simp add: spent_ok_def)
qed

section \<open>Picking rooms and picking up coins\<close>

lemma choice_in_set: "xs \<noteq> [] \<Longrightarrow> choice d xs \<in> set xs"
  by (simp add: choice_def)

text \<open>
  C9. For every world and every \<open>exclude_id\<close>, \<open>pick_existing_room\<close> returns \<open>None\<close>
  exactly when the store has no room under an id other than \<open>exclude_id\<close>; otherwise
  it returns a room that is in the store under an id other than \<open>exclude_id\<close>, and,
  rooms being stored under their own ids, that room's id field differs from
  \<open>exclude_id\<close>.
\<close>

theorem pick_existing_room_spec:
  "(pick_existing_room d w exclude_id = None \<longleftrightarrow>
      (\<forall>k \<in> fst ` set (rooms w). k = exclude_id))
   \<and> (\<forall>r. pick_existing_room d w exclude_id = Some r \<longrightarrow>
          (\<exists>k. k \<noteq> exclude_id \<and> map_of (rooms w) k = Some r)
          \<and> (ids_match w \<longrightarrow> room_id r \<noteq> exclude_id))"
proof -
  define ids where "ids = filter (\<lambda>k. k \<noteq> exclude_id) (map fst (rooms w))"
  have pick: "pick_existing_room d w exclude_id =
      (if ids = [] then None else map_of (rooms w) (choice d ids))"
    by (simp add: pick_existing_room_def ids_def)
  have empty: "ids = [] \<longleftrightarrow> (\<forall>k \<in> fst ` set (rooms w). k = exclude_id)"
    by (auto simp: ids_def filter_empty_conv)
  have found: "\<exists>r. map_of (rooms w) (choice d ids) = Some r" and other: "choice d ids \<noteq> exclude_id"
    if "ids \<noteq> []"
  proof -
    from choice_in_set [OF that] have "choice d ids \<in> set ids" .
    then have "choice d ids \<in> fst ` set (rooms w)" and ne: "choice d ids \<noteq> exclude_id"
      by (auto simp: ids_def)
    then show "\<exists>r. map_of (rooms w) (choice d ids) = Some r"
      by (metis map_of_eq_None_iff not_Some_eq)
    from ne show "choice d ids \<noteq> exclude_id" .
  qed
  have none: "pick_existing_room d w exclude_id = None \<longleftrightarrow>
      (\<forall>k \<in> fst ` set (rooms w). k = exclude_id)"
    using pick empty found by (cases "ids = []") auto
  have some: "(\<exists>k. k \<noteq> exclude_id \<and> map_of (rooms w) k = Some r)
      \<and> (ids_match w \<longrightarrow> room_id r \<noteq> exclude_id)"
    if "pick_existing_room d w exclude_id = Some r" for r
  proof -
    from that pick have ne: "ids \<noteq> []" and r: "map_of (rooms w) (choice d ids) = Some r"
      by (auto split: if_splits)
    from r have "(choice d ids, r) \<in> set (rooms w)" by (rule map_of_SomeD)
    then have "ids_match w \<longrightarrow> room_id r = choice d ids"
      by (auto simp: ids_match_def)
    with r other [OF ne] show ?thesis by auto
  qed
  from none some show ?thesis by blast
qed

theorem pick_existing_room_spec_witness:
  "pick_existing_room 0 default_world 0 = None
   \<and> ids_match two_room_world
   \<and> pick_existing_room 7 two_room_world 0 = Some hallway
   \<and> map_of (rooms two_room_world) 1 = Some hallway
   \<and> room_id hallway \<noteq> 0"
proof -
  have "\<forall>k \<in> fst ` set (rooms default_world). k = 0"
    by (simp add: default_world_def)
  with pick_existing_room_spec [of 0 default_world 0]
  have none: "pick_existing_room 0 default_world 0 = None" by blast
  have m: "ids_match two_room_world"
    by (simp add: ids_match_def two_room_world_def first_chamber_def hallway_def)
  have p: "pick_existing_room 7 two_room_world 0 = Some hallway"
    by (simp add: pick_existing_room_def two_room_world_def choice_def)
  from pick_existing_room_spec [of 7 two_room_world 0] p m
  have "room_id hallway \<noteq> 0" by blast
  moreover have "map_of (rooms two_room_world) 1 = Some hallway"
    by (simp add: two_room_world_def)
  ultimately show ?thesis using none m p by blast
qed

text \<open>
  C7. Entering a room that holds \<open>n > 0\<close> coins picks them up once: the player's total
  grows by exactly \<open>n\<close>, the room is stored and saved with 0 coins. In a world whose ids
  in use are below \<open>next_id\<close>, whenever the player stands in that room again, after any
  number of further rounds of the loop, entering it picks up nothing: the state is
  left as it is.
\<close>

theorem coin_pickup_once:
  assumes room: "map_of (rooms (data (st g))) (current_id g) = Some r"
    and n: "coins r = n" "0 < n"
  shows "\<exists>g1. pickup_coins g = Inr (r\<lparr>coins := 0\<rparr>, g1)
         \<and> player_coins g1 = player_coins g + n
         \<and> current_id g1 = current_id g
         \<and> map_of (rooms (data (st g1))) (current_id g) = Some (r\<lparr>coins := 0\<rparr>)
         \<and> rooms_json (st g1) = Some (data (st g1))
         \<and> (ids_fresh (data (st g)) \<longrightarrow>
              (\<forall>g2. later cfg g1 g2 \<and> current_id g2 = current_id g \<longrightarrow>
                 (\<exists>r2. pickup_coins g2 = Inr (r2, g2) \<and> coins r2 \<le> 0)))"
proof -
  define g1 where "g1 = g\<lparr>player_coins := player_coins g + coins r,
      st := save_data (put_room (current_id g) (r\<lparr>coins := 0\<rparr>) (st g))\<rparr>"
  have pick: "pickup_coins g = Inr (r\<lparr>coins := 0\<rparr>, g1)"
    using room n by (simp add: pickup_coins_def g1_def Let_def)
  have again: "\<exists>r2. pickup_coins g2 = Inr (r2, g2) \<and> coins r2 \<le> 0"
    if fresh: "ids_fresh (data (st g))" and l: "later cfg g1 g2"
      and cur: "current_id g2 = current_id g" for g2
  proof -
    from fresh have "spent_ok {} (data (st g))" by (simp add: spent_ok_def)
    from pickup_coins_spent [OF pick this] have "spent_ok {current_id g} (data (st g1))"
      by (rule spent_ok_mono) simp
    from later_spent [OF l this] cur
    obtain r2 where "map_of (rooms (data (st g2))) (current_id g2) = Some r2" "coins r2 \<le> 0"
      by (auto simp: spent_ok_def)
    then show ?thesis by (auto simp: pickup_coins_def)
  qed
  have "map_of (rooms (data (st g1))) (current_id g) = Some (r\<lparr>coins := 0\<rparr>)"
    by (simp add: g1_def update_conv')
  with pick n again show ?thesis
    by (auto simp: g1_def)
qed

lemma help_round:
  "play_game_loop_step example_config (example_turn ''help'') g = 
     (case pickup_coins g of Inl err \<Rightarrow> Raised err | Inr (r, g') \<Rightarrow> Continue g')"
  by (simp add: play_game_loop_step_def Let_def example_turn_def lower_def lower_char_def
      split: sum.splits)

theorem coin_pickup_once_witness:
  "map_of (rooms (data (st (initial_game None)))) (current_id (initial_game None)) = Some first_chamber
   \<and> coins first_chamber = 1
   \<and> ids_fresh (data (st (initial_game None)))
   \<and> (\<exists>g1. pickup_coins (initial_game None) = Inr (first_chamber\<lparr>coins := 0\<rparr>, g1)
         \<and> player_coins g1 = 1
         \<and> map_of (rooms (data (st g1))) 0 = Some (first_chamber\<lparr>coins := 0\<rparr>)
         \<and> rooms_json (st g1) = Some (data (st g1))
         \<and> play_game_loop_step example_config (example_turn ''help'') g1 = Continue g1
         \<and> (\<exists>r2. pickup_coins g1 = Inr (r2, g1) \<and> coins r2 \<le> 0))"
proof -
  let ?g = "initial_game None"
  have h: "map_of (rooms (data (st ?g))) (current_id ?g) = Some first_chamber"
    "coins first_chamber = 1" "ids_fresh (data (st ?g))" "current_id ?g = 0" "player_coins ?g = 0"
    by (simp_all add: initial_game_def load_data_def default_world_def first_chamber_def
        ids_fresh_def Let_def)
  from coin_pickup_once [OF h(1,2), of example_config] h(3)
  obtain g1 where g1: "pickup_coins ?g = Inr (first_chamber\<lparr>coins := 0\<rparr>, g1)"
    "player_coins g1 = player_coins ?g + 1" "current_id g1 = current_id ?g"
    "map_of (rooms (data (st g1))) (current_id ?g) = Some (first_chamber\<lparr>coins := 0\<rparr>)"
    "rooms_json (st g1) = Some (data (st g1))"
    and after: "\<And>g2. later example_config g1 g2 \<Longrightarrow> current_id g2 = current_id ?g \<Longrightarrow>
       \<exists>r2. pickup_coins g2 = Inr (r2, g2) \<and> coins r2 \<le> 0"
    by auto
  from after [OF later_now g1(3)]
  obtain r2 where r2: "pickup_coins g1 = Inr (r2, g1)" "coins r2 \<le> 0" by blast
  then have "play_game_loop_step example_config (example_turn ''help'') g1 = Continue g1"
    by (simp add: help_round)
  with g1 r2 h show ?thesis by auto
qed

section \<open>Display shuffle\<close>

lemma length_shuffle_from [simp]: "length (shuffle_from rnd i xs) = length xs"
  by (induction i arbitrary: xs) (simp_all add: Let_def)

lemma mset_shuffle_from: "i < length xs \<Longrightarrow> mset (shuffle_from rnd i xs) = mset xs"
proof (induction i arbitrary: xs)
  case 0
  then show ?case by simp
next
  case (Suc i)
  define j where "j = rnd (Suc i) mod (Suc i + 1)"
  have "j < Suc i + 1" by (simp add: j_def)
  with Suc.prems have j: "j < length xs" by simp
  have "mset (xs[Suc i := xs ! j, j := xs ! Suc i]) = mset xs"
    using mset_swap [OF j Suc.prems] .
  moreover have "i < length (xs[Suc i := xs ! j, j := xs ! Suc i])"
    using Suc.prems by simp
  ultimately show ?case
    using Suc.IH [of "xs[Suc i := xs ! j, j := xs ! Suc i]"]
    by (simp add: Let_def j_def)
qed

lemma length_shuffle [simp]: "length (shuffle rnd xs) = length xs"
  by (simp add: shuffle_def)

lemma mset_shuffle: "mset (shuffle rnd xs) = mset xs"
proof (cases xs)
  case Nil
  then show ?thesis by (simp add: shuffle_def)
next
  case (Cons x ys)
  then show ?thesis by (simp add: shuffle_def mset_shuffle_from)
qed

lemma mset_map_nth_shuffle:
  "mset (map (\<lambda>idx. xs ! idx) (shuffle rnd [0 ..< length xs])) = mset xs"
proof -
  have "mset (map (\<lambda>idx. xs ! idx) (shuffle rnd [0 ..< length xs]))
      = image_mset (\<lambda>idx. xs ! idx) (mset (shuffle rnd [0 ..< length xs]))"
    by simp
  also have "\<dots> = image_mset (\<lambda>idx. xs ! idx) (mset [0 ..< length xs])"
    by (simp only: mset_shuffle)
  also have "\<dots> = mset (map (\<lambda>idx. xs ! idx) [0 ..< length xs])"
    by simp
  also have "\<dots> = mset xs"
    by (simp only: map_nth)
  finally show ?thesis .
qed

lemma shuffle_pair:
  "shuffle rnd [a, b] = (if rnd 1 mod 2 = 0 then [b, a] else [a, b])"
proof (cases "rnd (Suc 0) mod Suc (Suc 0) = 0")
  case True
  then show ?thesis by (simp add: shuffle_def Let_def numeral_2_eq_2)
next
  case False
  then have "rnd (Suc 0) mod Suc (Suc 0) = Suc 0" by arith
  then show ?thesis by (simp add: shuffle_def Let_def numeral_2_eq_2)
qed

lemma display_hist_room: "fst (randomized_exits_for_display_hist rnd r) = r"
  by (simp add: randomized_exits_for_display_hist_def Let_def)

lemma redisplay_room: "redisplay rnds r = r"
  by (induction rnds) (simp_all add: display_hist_room)

lemma display_hist_zip:
  fixes rnd r
  defines "ks \<equiv> map (\<lambda>i. str (int i)) [1 ..< length (exits r) + 1]"
    and "vs \<equiv> map (\<lambda>idx. exits r ! idx) (shuffle rnd [0 ..< length (exits r)])"
  shows "snd (randomized_exits_for_display_hist rnd r) = zip ks vs \<and> length ks = length vs"
  by (simp add: randomized_exits_for_display_hist_def Let_def ks_def vs_def del: upt_Suc)

lemma display_hist_keys:
  "map fst (snd (randomized_exits_for_display_hist rnd r)) =
     map (\<lambda>i. str (int i)) [1 ..< length (exits r) + 1]"
  using display_hist_zip [of rnd r] by (simp only: map_fst_zip)

lemma display_hist_values:
  "mset (map snd (snd (randomized_exits_for_display_hist rnd r))) = mset (exits r)"
  using display_hist_zip [of rnd r] mset_map_nth_shuffle [of "exits r" rnd]
  by (simp only: map_snd_zip)

lemma display_game:
  "(case randomized_exits_for_display rnd r of
      Inl err \<Rightarrow> length (exits r) < 2
    | Inr (r', d) \<Rightarrow>
        r' = r \<and> map fst d = [''1'', ''2''] \<and> mset (map snd d) = mset (take 2 (exits r)))"
proof (cases "length (exits r) < 2")
  case True
  then show ?thesis by (simp add: randomized_exits_for_display_def Let_def)
next
  case False
  then obtain a b rest where "exits r = a # b # rest"
    by (cases "exits r"; cases "tl (exits r)") auto
  then show ?thesis
    by (simp add: randomized_exits_for_display_def Let_def shuffle_pair)
qed

text \<open>
  C8. For any room and any random draws, computing the display mapping leaves the room
  as it was, its stored exits included, however many times it is computed. The mapping
  of the history snapshot has the keys "1" to "n" and, as values, the stored exits in
  some order; the one of \<^verbatim>\<open>game.py\<close> has the keys "1" and "2" and the first two stored
  exits in some order, and raises for a room with fewer than two exits.
\<close>

theorem display_shuffle_keeps_exits:
  "fst (randomized_exits_for_display_hist rnd r) = r
   \<and> redisplay rnds r = r
   \<and> exits (redisplay rnds r) = exits r
   \<and> map fst (snd (randomized_exits_for_display_hist rnd r)) =
       map (\<lambda>i. str (int i)) [1 ..< length (exits r) + 1]
   \<and> mset (map snd (snd (randomized_exits_for_display_hist rnd r))) = mset (exits r)
   \<and> (case randomized_exits_for_display rnd r of
         Inl err \<Rightarrow> length (exits r) < 2
       | Inr (r', d) \<Rightarrow>
           r' = r \<and> map fst d = [''1'', ''2''] \<and> mset (map snd d) = mset (take 2 (exits r)))"
  using display_hist_room redisplay_room display_hist_keys display_hist_values
    display_game
  by simp

lemma display_mapping_varies:
  "snd (randomized_exits_for_display_hist (\<lambda>_. 0) first_chamber) =
     [(''1'', \<lparr>role = ''existing_or_new'', label = ''Right portal'', target = None\<rparr>),
      (''2'', \<lparr>role = ''home_or_death'', label = ''Left portal'', target = None\<rparr>)]
   \<and> snd (randomized_exits_for_display_hist (\<lambda>_. 1) first_chamber) =
     [(''1'', \<lparr>role = ''home_or_death'', label = ''Left portal'', target = None\<rparr>),
      (''2'', \<lparr>role = ''existing_or_new'', label = ''Right portal'', target = None\<rparr>)]"
  by (simp add: randomized_exits_for_display_hist_def first_chamber_def shuffle_pair
      upt_rec [of 0] upt_rec [of 1] str_def str_nat.simps digit_char_def upt_conv_Cons)

section \<open>Generation-computer cadence\<close>

lemma digit_char_in: "digit_char d \<in> set ''0123456789''"
  unfolding digit_char_def by (rule nth_mem) simp

lemma str_nat_last: "str_nat n \<noteq> [] \<and> last (str_nat n) = digit_char (n mod 10)"
  by (subst (1 2) str_nat.simps) simp

lemma str_last: "last (str i) \<in> set ''0123456789''"
  using str_nat_last digit_char_in by (simp add: str_def)

lemma default_title_differs: "''Room '' @ str i \<noteq> ''Room Creation Computer''"
proof
  assume "''Room '' @ str i = ''Room Creation Computer''"
  then have "str i = ''Creation Computer''" by simp
  then have "last (str i) = CHR ''r''" by simp
  with str_last [of i] show False by simp
qed

lemma generated_room_title:
  "title (generated_room io rid j) =
     (case j_title j of None \<Rightarrow> ''Room '' @ str rid | Some t \<Rightarrow> t)"
  by (simp add: generated_room_def Let_def)

lemma title_computer_room: "title (computer_room rid) = ''Room Creation Computer''"
  by (simp add: computer_room_def)

lemma create_new_room_ai_cases:
  assumes "create_new_room_ai io s = Inr (r, s')"
  shows "get_total_generated (data s') = get_total_generated (data s) + 1
         \<and> (if get_total_generated (data s') mod 10 = 0 then r = computer_room (next_id (data s))
            else \<exists>j. generate_room_text (adapter io) = Inr (Obj j)
                      \<and> r = generated_room io (next_id (data s)) j)"
  using assms
  by (auto simp: create_new_room_ai_def Let_def store_defs get_total_generated_def
      split: if_splits sum.splits parsed.splits)

lemma create_new_room_cases:
  assumes "create_new_room io adm s = Inr (r, s')" and "\<not> dict_truthy adm"
  shows "get_total_generated (data s') = get_total_generated (data s) + 1
         \<and> (if get_total_generated (data s') mod 10 = 0 then r = computer_room (next_id (data s))
            else \<exists>j. generate_room_text (adapter io) = Inr (Obj j)
                      \<and> r = generated_room io (next_id (data s)) j)"
  using assms
  by (auto simp: create_new_room_def Let_def store_defs get_total_generated_def
      split: if_splits sum.splits parsed.splits)

lemma cadence_from_cases:
  assumes "if tg mod 10 = 0 then r = computer_room n
           else \<exists>j. generate_room_text (adapter io) = Inr (Obj j) \<and> r = generated_room io n j"
  shows "(tg mod (10::int) = 0 \<longrightarrow> r = computer_room n)
       \<and> (provider_title io \<noteq> Some ''Room Creation Computer'' \<longrightarrow>
            (r = computer_room n \<longleftrightarrow> tg mod 10 = 0)
          \<and> (title r = ''Room Creation Computer'' \<longleftrightarrow> tg mod 10 = 0))"
proof (cases "tg mod 10 = 0")
  case True
  with assms show ?thesis by (simp add: title_computer_room)
next
  case False
  with assms obtain j where j: "generate_room_text (adapter io) = Inr (Obj j)"
    and r: "r = generated_room io n j" by auto
  have "title r \<noteq> ''Room Creation Computer''"
    if "provider_title io \<noteq> Some ''Room Creation Computer''"
    using that j r default_title_differs [of n]
    by (auto simp: provider_title_def generated_room_title split: option.splits)
  then show ?thesis
    using False title_computer_room [of n] by auto
qed

text \<open>
  C4, as the code has it. On an AI generation attempt that returns, \<open>total_generated\<close>
  grows by 1, and when its new value is a multiple of 10 the created room is the fixed
  Room Creation Computer room, whatever the provider returned. Otherwise the room is
  built from the provider's content; whenever the provider's own title is not
  "Room Creation Computer", the created room is the fixed room (and carries its title)
  exactly when the new \<open>total_generated\<close> is a multiple of 10.
\<close>

theorem computer_room_cadence:
  "(\<not> dict_truthy adm \<and> create_new_room io adm s = Inr (r, s') \<longrightarrow>
      get_total_generated (data s') = get_total_generated (data s) + 1
    \<and> (get_total_generated (data s') mod 10 = 0 \<longrightarrow> r = computer_room (next_id (data s)))
    \<and> (provider_title io \<noteq> Some ''Room Creation Computer'' \<longrightarrow>
          (r = computer_room (next_id (data s)) \<longleftrightarrow> get_total_generated (data s') mod 10 = 0)
        \<and> (title r = ''Room Creation Computer'' \<longleftrightarrow> get_total_generated (data s') mod 10 = 0)))
   \<and> (create_new_room_ai io s = Inr (r2, s2) \<longrightarrow>
      get_total_generated (data s2) = get_total_generated (data s) + 1
    \<and> (get_total_generated (data s2) mod 10 = 0 \<longrightarrow> r2 = computer_room (next_id (data s)))
    \<and> (provider_title io \<noteq> Some ''Room Creation Computer'' \<longrightarrow>
          (r2 = computer_room (next_id (data s)) \<longleftrightarrow> get_total_generated (data s2) mod 10 = 0)
        \<and> (title r2 = ''Room Creation Computer'' \<longleftrightarrow> get_total_generated (data s2) mod 10 = 0)))"
  (is "(?P1 \<longrightarrow> ?Q1) \<and> (?P2 \<longrightarrow> ?Q2)")
proof (rule conjI; rule impI)
  assume p: ?P1
  then have res: "create_new_room io adm s = Inr (r, s')" and ai: "\<not> dict_truthy adm"
    by simp_all
  from create_new_room_cases [OF res ai, THEN conjunct1]
    cadence_from_cases [OF create_new_room_cases [OF res ai, THEN conjunct2]]
  show ?Q1 by simp
next
  assume res: ?P2
  from create_new_room_ai_cases [OF res, THEN conjunct1]
    cadence_from_cases [OF create_new_room_ai_cases [OF res, THEN conjunct2]]
  show ?Q2 by simp
qed

theorem computer_room_cadence_counterexample:
  "create_new_room mimic_io None (load_data None) = Inr (computer_room 1, mimic_state)
   \<and> create_new_room_ai mimic_io (load_data None) = Inr (computer_room 1, mimic_state)
   \<and> get_total_generated (data mimic_state) = 1
   \<and> get_total_generated (data mimic_state) mod 10 \<noteq> 0"
  by (simp add: create_new_room_def create_new_room_ai_def dict_truthy_def generate_room_text_def
      hf_generate_text_def truthy_def from_http_def mimic_io_def mimic_json_def mimic_state_def
      load_data_def default_world_def store_defs get_total_generated_def Let_def
      generated_room_def computer_room_def get_label_def image_failure_raises_def)

theorem computer_room_cadence_witness:
  "\<not> dict_truthy None
   \<and> provider_title example_io \<noteq> Some ''Room Creation Computer''
   \<and> (\<exists>r s'. create_new_room example_io None ninth_state = Inr (r, s')
         \<and> get_total_generated (data s') = 10
         \<and> r = computer_room 1 \<and> title r = ''Room Creation Computer'')
   \<and> (\<exists>r s'. create_new_room_ai example_io (load_data None) = Inr (r, s')
         \<and> get_total_generated (data s') = 1
         \<and> r \<noteq> computer_room 1 \<and> title r \<noteq> ''Room Creation Computer'')"
proof -
  have ai: "\<not> dict_truthy None"
    by (simp add: dict_truthy_def)
  have prov: "provider_title example_io \<noteq> Some ''Room Creation Computer''"
    by (simp add: provider_title_def generate_room_text_def local_json_def example_defs)
  have start: "get_total_generated (data ninth_state) = 9" "next_id (data ninth_state) = 1"
    "get_total_generated (data (load_data None)) = 0" "next_id (data (load_data None)) = 1"
    by (simp_all add: ninth_state_def get_total_generated_def example_defs)
  obtain r s' where a: "create_new_room example_io None ninth_state = Inr (r, s')"
    by (cases "create_new_room example_io None ninth_state")
       (simp_all add: create_new_room_def generate_room_text_def local_json_def example_defs
          ninth_state_def Let_def store_defs get_total_generated_def dict_truthy_def)
  obtain r2 s2 where b: "create_new_room_ai example_io (load_data None) = Inr (r2, s2)"
    using ai_example_returns by blast
  from computer_room_cadence [of None example_io ninth_state r s', THEN conjunct1] ai a prov start
  have "get_total_generated (data s') = 10 \<and> r = computer_room 1
      \<and> title r = ''Room Creation Computer''"
    by (auto simp: title_computer_room)
  moreover
  from computer_room_cadence [of None example_io "load_data None" r s' r2 s2, THEN conjunct2]
    b prov start
  have "get_total_generated (data s2) = 1 \<and> r2 \<noteq> computer_room 1
      \<and> title r2 \<noteq> ''Room Creation Computer''"
    by (auto simp: title_computer_room)
  ultimately show ?thesis
    using ai prov a b by blast
qed

section \<open>Broken links and provider failures\<close>

lemma str_1: "str 1 = ''1''" and str_2: "str 2 = ''2''"
  by (simp_all add: str_def str_nat.simps digit_char_def)

lemma display_two:
  "exits r = [a, b] \<Longrightarrow>
     snd (randomized_exits_for_display_hist rnd r) =
       (if rnd 1 mod 2 = 0 then [(''1'', b), (''2'', a)] else [(''1'', a), (''2'', b)])"
  by (simp add: randomized_exits_for_display_hist_def shuffle_pair upt_rec [of 0] upt_rec [of 1]
      str_def str_nat.simps digit_char_def upt_conv_Cons)

lemma resolve_exit_broken_link:
  assumes "role chosen = ''link''" and "target chosen = Some tgt"
    and "tgt \<notin> fst ` set (rooms (data (st g)))"
  shows "resolve_exit t r chosen g =
     (case pick_existing_room (pick_draw t) (data (st g)) (room_id r) of
        Some pick \<Rightarrow> Continue (g\<lparr>current_id := room_id pick\<rparr>)
      | None \<Rightarrow>
          (case create_new_room_ai (gen t) (st g) of
             Inl err \<Rightarrow> Raised err
           | Inr (new_room, s') \<Rightarrow> Continue (g\<lparr>st := s', current_id := room_id new_room\<rparr>)))"
  using assms by (simp add: resolve_exit_def)

lemma dangling_made_by_editor:
  "link_exits_interactive renders_all (Some 0) Exit2 (Some 7)
     \<lparr>data = two_room_world\<lparr>rooms := [(0, first_chamber\<lparr>coins := 0\<rparr>), (1, hallway)]\<rparr>,
      rooms_json = None\<rparr>
   = Inr (st dangling_game)"
  by (simp add: link_exits_interactive_def two_room_world_def first_chamber_def exit_index_def
      dangling_game_def dangling_world_def dangling_chamber_def dangling_exit_def store_defs
      Let_def)

text \<open>
  C1 at a failing input. The player stands in room 0 of \<open>dangling_world\<close> and chooses
  the exit that links to the missing room 7. The round does not leave the player in room
  0: control falls through to the last branch, which teleports to room 1. In a world
  with no other room the same choice creates a room through the AI path instead.
\<close>

theorem broken_link_moves_player:
  "map_of (snd (randomized_exits_for_display_hist (shuffle_draws (example_turn ''1''))
                 dangling_chamber)) ''1'' = Some dangling_exit
   \<and> the (target dangling_exit) \<notin> fst ` set (rooms (data (st dangling_game)))
   \<and> play_game_loop_step example_config (example_turn ''1'') dangling_game
       = Continue (dangling_game\<lparr>current_id := 1\<rparr>)"
proof -
  have ex: "exits dangling_chamber =
      [\<lparr>role = ''home_or_death'', label = ''Left portal'', target = None\<rparr>, dangling_exit]"
    by (simp add: dangling_chamber_def)
  have disp: "snd (randomized_exits_for_display_hist (shuffle_draws (example_turn ''1''))
      dangling_chamber) =
      [(''1'', dangling_exit),
       (''2'', \<lparr>role = ''home_or_death'', label = ''Left portal'', target = None\<rparr>)]"
    by (simp add: display_two [OF ex] example_turn_def)
  have pick: "pickup_coins dangling_game = Inr (dangling_chamber, dangling_game)"
    by (simp add: pickup_coins_def dangling_game_def dangling_world_def dangling_chamber_def)
  have missing: "the (target dangling_exit) \<notin> fst ` set (rooms (data (st dangling_game)))"
    by (simp add: dangling_exit_def dangling_game_def dangling_world_def)
  have res: "resolve_exit (example_turn ''1'') dangling_chamber dangling_exit dangling_game
      = Continue (dangling_game\<lparr>current_id := 1\<rparr>)"
    by (simp add: resolve_exit_def dangling_exit_def dangling_game_def dangling_world_def
        pick_existing_room_def choice_def example_turn_def dangling_chamber_def
        first_chamber_def hallway_def)
  have "play_game_loop_step example_config (example_turn ''1'') dangling_game
      = Continue (dangling_game\<lparr>current_id := 1\<rparr>)"
    unfolding play_game_loop_step_def pick
    by (simp add: disp res Let_def)
       (simp add: example_turn_def lower_def lower_char_def startswith_def)
  with disp missing show ?thesis by simp
qed

lemma broken_link_creates_room:
  "\<exists>new_room s'.
     resolve_exit (example_turn ''1'') dangling_chamber dangling_exit lone_game
       = Continue (lone_game\<lparr>st := s', current_id := 1\<rparr>)
     \<and> next_id (data s') = 2 \<and> total_generated (data s') = Some 1
     \<and> map_of (rooms (data s')) 1 = Some new_room"
proof -
  have none: "pick_existing_room (pick_draw (example_turn ''1'')) (data (st lone_game))
      (room_id dangling_chamber) = None"
    by (simp add: pick_existing_room_def lone_game_def dangling_world_def dangling_chamber_def
        first_chamber_def)
  have start: "next_id (data (st lone_game)) = 1" "get_total_generated (data (st lone_game)) = 0"
    "gen (example_turn ''1'') = example_io"
    by (simp_all add: lone_game_def dangling_world_def get_total_generated_def example_turn_def)
  obtain r s' where res: "create_new_room_ai example_io (st lone_game) = Inr (r, s')"
    by (cases "create_new_room_ai example_io (st lone_game)")
       (simp_all add: create_new_room_ai_def generate_room_text_def local_json_def example_defs
          Let_def store_defs get_total_generated_def lone_game_def dangling_world_def
          image_failure_raises_def)
  from create_new_room_ai_effect [OF res] create_new_room_ai_id [OF res] start
  have "next_id (data s') = 2" "total_generated (data s') = Some 1"
    "map_of (rooms (data s')) 1 = Some r" "room_id r = 1"
    by (simp_all add: update_conv')
  moreover have "resolve_exit (example_turn ''1'') dangling_chamber dangling_exit lone_game
      = Continue (lone_game\<lparr>st := s', current_id := room_id r\<rparr>)"
    by (subst resolve_exit_broken_link [where tgt = 7])
       (simp_all add: dangling_exit_def lone_game_def dangling_world_def none [unfolded lone_game_def dangling_world_def, simplified]
          res [unfolded lone_game_def dangling_world_def, simplified] start(3))
  ultimately show ?thesis by auto
qed

lemma generation_failure_propagates:
  assumes "generate_room_text (adapter io) = Inl err"
  shows "create_new_room io None s = Inl err" and "create_new_room_ai io s = Inl err"
  using assms
  by (simp_all add: create_new_room_def create_new_room_ai_def dict_truthy_def Let_def)

lemma unparseable_text_falls_back:
  assumes "HF_TOKEN e = Some tok" "tok \<noteq> []" "PROVIDER_TEXT e = None"
    "hf_post e = Body (HfDict text)" "json_loads e text = None"
  shows "generate_room_text e = Inr (fallback_json (''Room '' @ str (randint (randint_draw e))) text)"
  using assms
  by (simp add: generate_room_text_def hf_generate_text_def truthy_def from_http_def)

lemma display_game_two:
  "exits r = [a, b] \<Longrightarrow>
     randomized_exits_for_display rnd r =
       Inr (r, if rnd 1 mod 2 = 0 then [(''1'', b), (''2'', a)] else [(''1'', a), (''2'', b)])"
  by (simp add: randomized_exits_for_display_def shuffle_pair)

text \<open>
  C6 at failing inputs. With the adapter's default configuration and no Hugging Face
  key, and with a key but an unreachable provider, the text generation raises; the
  creation functions let the exception through before any room is stored, and the round
  of the play loop that asked for the room, in \<^verbatim>\<open>game.py\<close> and in the history
  snapshot, ends with the exception.
\<close>

theorem text_failure_is_fatal:
  "generate_room_text (adapter offline_io) = Inl RuntimeError
   \<and> create_new_room offline_io None (load_data None) = Inl RuntimeError
   \<and> create_new_room_ai offline_io (load_data None) = Inl RuntimeError
   \<and> generate_room_text (adapter unreachable_io) = Inl RequestException
   \<and> create_new_room unreachable_io None (load_data None) = Inl RequestException
   \<and> create_new_room_ai unreachable_io (load_data None) = Inl RequestException
   \<and> play_game_step example_config offline_turn (initial_game None) = Raised RuntimeError
   \<and> play_game_loop_step example_config offline_turn (initial_game None) = Raised RuntimeError"
proof -
  have off: "generate_room_text (adapter offline_io) = Inl RuntimeError"
    by (simp add: offline_io_def generate_room_text_def hf_generate_text_def truthy_def)
  have unr: "generate_room_text (adapter unreachable_io) = Inl RequestException"
    by (simp add: unreachable_io_def generate_room_text_def hf_generate_text_def truthy_def
        from_http_def)
  have ex: "exits (first_chamber\<lparr>coins := 0\<rparr>) =
      [\<lparr>role = ''home_or_death'', label = ''Left portal'', target = None\<rparr>,
       \<lparr>role = ''existing_or_new'', label = ''Right portal'', target = None\<rparr>]"
    by (simp add: first_chamber_def)
  have pick: "pickup_coins (initial_game None) =
      Inr (first_chamber\<lparr>coins := 0\<rparr>,
           (initial_game None)\<lparr>player_coins := 1,
              st := save_data (put_room 0 (first_chamber\<lparr>coins := 0\<rparr>) (st (initial_game None)))\<rparr>)"
    by (simp add: pickup_coins_def initial_game_def load_data_def default_world_def
        first_chamber_def Let_def)
  have turn: "shuffle_draws offline_turn (Suc 0) = 0" "action offline_turn = ''1''"
    "gen_roll offline_turn = 0" "gen offline_turn = offline_io"
    by (simp_all add: offline_turn_def example_turn_def)
  have hist: "play_game_loop_step example_config offline_turn (initial_game None) = Raised RuntimeError"
    unfolding play_game_loop_step_def pick
    by (simp add: Let_def display_two [OF ex] turn lower_def lower_char_def startswith_def
        resolve_exit_def generation_failure_propagates(2) [OF off])
  have game: "play_game_step example_config offline_turn (initial_game None) = Raised RuntimeError"
    unfolding play_game_step_def pick
    by (simp add: Let_def display_game_two [OF ex] turn lower_def lower_char_def startswith_def
        resolve_exit_game_def generation_failure_propagates(1) [OF off])
  from off unr hist game generation_failure_propagates [OF off]
    generation_failure_propagates [OF unr]
  show ?thesis by simp
qed

end
